theory Spec2Isabelle
  imports Main "HOL-Library.Sublist"
begin

section \<open>The TRPG dice roller: \<^verbatim>\<open>src/Dicer.py\<close> and \<^verbatim>\<open>src/dicer.py\<close>\<close>

text \<open>
  Both files define a class \<^verbatim>\<open>DiceRoller\<close> with the methods \<^verbatim>\<open>roll_dice\<close>,
  \<^verbatim>\<open>check_success\<close>, \<^verbatim>\<open>evaluate_expression\<close>, \<^verbatim>\<open>quick_roll\<close>, \<^verbatim>\<open>repeat_roll\<close> and
  \<^verbatim>\<open>_execute_rolls\<close>. All methods but \<^verbatim>\<open>evaluate_expression\<close> have the same body in the
  two files and are embedded once; \<^verbatim>\<open>evaluate_expression\<close> differs in how it removes the
  option flags and is embedded twice.

  Conventions of the embedding.
  \<^item> A Python \<^verbatim>\<open>str\<close> is a \<^typ>\<open>string\<close>. A \<^typ>\<open>char\<close> is a code point below 256, so the
    input texts of the model are the Latin-1 strings; on these the classes \<^verbatim>\<open>\d\<close> and
    \<^verbatim>\<open>\s\<close> of \<^verbatim>\<open>re\<close>, \<^verbatim>\<open>str.strip\<close> and \<^verbatim>\<open>int\<close> are the ones written below. The fixed
    Chinese phrases of the output are carried as their UTF-8 bytes; no property below
    counts their characters.
  \<^item> A Python \<^verbatim>\<open>int\<close> is an \<^typ>\<open>int\<close> (a count of dice or of trials, read from a run
    of digits, is a \<^typ>\<open>nat\<close>). Conversions between integers and decimal text are exact
    for every length: the limit that recent versions of CPython put on the number of
    digits (beyond it the conversion raises \<^verbatim>\<open>ValueError\<close>, which the entry points catch
    like any other) is not part of the model.
  \<^item> An exception is an \<^verbatim>\<open>Inl\<close> value. Every exception raised in the three entry
    points is caught by their \<^verbatim>\<open>except Exception as e\<close> and rendered with \<^verbatim>\<open>str(e)\<close>.
    The message of an exception raised by the Python library is not text of this
    repository: the embedding takes the rendering of those messages as a parameter
    \<open>msg\<close>.
  \<^item> The process-wide random source is passed explicitly, as an infinite sequence of raw
    draws \<^typ>\<open>nat \<Rightarrow> nat\<close>; \<^verbatim>\<open>random.randint(a, b)\<close> consumes one raw draw and maps it
    into \<open>[a, b]\<close>, and raises \<^verbatim>\<open>ValueError\<close> on an empty range before it consumes
    anything.
\<close>

subsection \<open>Python strings\<close>

definition is_digit :: "char \<Rightarrow> bool" where
  \<comment> \<open>\<^verbatim>\<open>\d\<close>\<close>
  "is_digit c = (c \<in> set ''0123456789'')"

definition is_space :: "char \<Rightarrow> bool" where
  \<comment> \<open>\<^verbatim>\<open>\s\<close>, and what \<^verbatim>\<open>str.strip()\<close> removes\<close>
  "is_space c = (c \<in> set [CHR 0x09, CHR 0x0A, CHR 0x0B, CHR 0x0C, CHR 0x0D,
                           CHR 0x1C, CHR 0x1D, CHR 0x1E, CHR 0x1F, CHR 0x20,
                           CHR 0x85, CHR 0xA0])"

definition strip :: "string \<Rightarrow> string" where
  \<comment> \<open>\<^verbatim>\<open>s.strip()\<close>\<close>
  "strip s = rev (dropWhile is_space (rev (dropWhile is_space s)))"

definition contains :: "string \<Rightarrow> string \<Rightarrow> bool" where
  \<comment> \<open>\<^verbatim>\<open>sub in s\<close>\<close>
  "contains sub s = sublist sub s"

function replace :: "string \<Rightarrow> string \<Rightarrow> string \<Rightarrow> string" where
  \<comment> \<open>\<^verbatim>\<open>s.replace(old, new)\<close>: every occurrence, left to right, without overlap\<close>
  "replace old new s =
     (if old = [] then new @ concat (map (\<lambda>c. c # new) s)
      else if s = [] then []
      else if prefix old s then new @ replace old new (drop (length old) s)
      else hd s # replace old new (tl s))"
  by pat_completeness auto
termination
  by (relation "measure (\<lambda>(old, new, s). length s)") (auto simp: neq_Nil_conv)

fun split :: "char \<Rightarrow> string \<Rightarrow> string list" where
  \<comment> \<open>\<^verbatim>\<open>s.split(sep)\<close> for a separator of one character\<close>
  "split sep [] = [[]]"
| "split sep (c # cs) =
     (if c = sep then [] # split sep cs
      else (case split sep cs of p # ps \<Rightarrow> (c # p) # ps | [] \<Rightarrow> [[c]]))"

fun join :: "string \<Rightarrow> string list \<Rightarrow> string" where
  \<comment> \<open>\<^verbatim>\<open>sep.join(xs)\<close>\<close>
  "join sep [] = []"
| "join sep [x] = x"
| "join sep (x # y # ys) = x @ sep @ join sep (y # ys)"

subsection \<open>Integers and decimal text\<close>

definition digit_char :: "nat \<Rightarrow> char" where
  "digit_char d = char_of (48 + d)"

function str_nat :: "nat \<Rightarrow> string" where
  "str_nat n = (if n < 10 then [digit_char n] else str_nat (n div 10) @ [digit_char (n mod 10)])"
  by pat_completeness auto
termination
  by (relation "measure id") auto

definition str_int :: "int \<Rightarrow> string" where
  \<comment> \<open>\<^verbatim>\<open>str(i)\<close>, also what an f-string writes for an integer\<close>
  "str_int i = (if i < 0 then CHR ''-'' # str_nat (nat (- i)) else str_nat (nat i))"

definition digit_val :: "char \<Rightarrow> nat" where
  "digit_val c = of_char c - 48"

definition digits_value :: "string \<Rightarrow> nat" where
  \<comment> \<open>\<^verbatim>\<open>int(s)\<close> for a run of digits \<open>s\<close>\<close>
  "digits_value s = foldl (\<lambda>a c. 10 * a + digit_val c) 0 s"

definition int_space :: "char \<Rightarrow> bool" where
  \<comment> \<open>the white space that \<^verbatim>\<open>int()\<close> skips at both ends of its argument\<close>
  "int_space c = (c \<in> set [CHR 0x09, CHR 0x0A, CHR 0x0B, CHR 0x0C, CHR 0x0D, CHR 0x20,
                            CHR 0x85, CHR 0xA0])"

fun int_body_ok :: "string \<Rightarrow> bool" where
  \<comment> \<open>digits, with single underscores allowed between two digits\<close>
  "int_body_ok [] = False"
| "int_body_ok [c] = is_digit c"
| "int_body_ok (c # u # cs) =
     (is_digit c \<and> (if u = CHR ''_'' then int_body_ok cs else int_body_ok (u # cs)))"

definition py_int :: "string \<Rightarrow> int option" where
  \<comment> \<open>\<^verbatim>\<open>int(s)\<close> for any text; \<open>None\<close> is \<^verbatim>\<open>ValueError\<close>\<close>
  "py_int s =
     (let t = rev (dropWhile int_space (rev (dropWhile int_space s)));
          neg = (t \<noteq> [] \<and> hd t = CHR ''-'');
          body = (if t \<noteq> [] \<and> (hd t = CHR ''-'' \<or> hd t = CHR ''+'') then tl t else t)
      in if int_body_ok body
         then Some ((if neg then - 1 else 1) * int (digits_value (filter is_digit body)))
         else None)"

subsection \<open>Exceptions\<close>

datatype lib_error =
    InvalidLiteral string     \<comment> \<open>\<^verbatim>\<open>int(s)\<close> on text that is no integer\<close>
  | TooManyValues             \<comment> \<open>unpacking more than two values into two names\<close>
  | NotEnoughValues           \<comment> \<open>unpacking fewer than two values into two names\<close>
  | EmptyRange int int        \<comment> \<open>\<^verbatim>\<open>random.randint(a, b)\<close> with \<open>b < a\<close>\<close>

datatype error =
    ValueError string         \<comment> \<open>raised by the repository's own code, with its message\<close>
  | Lib lib_error             \<comment> \<open>raised inside the Python library\<close>

fun str_error :: "(lib_error \<Rightarrow> string) \<Rightarrow> error \<Rightarrow> string" where
  \<comment> \<open>\<^verbatim>\<open>str(e)\<close>\<close>
  "str_error msg (ValueError m) = m"
| "str_error msg (Lib e) = msg e"

subsection \<open>The phrases of the output\<close>

definition err_prefix :: string where
  \<comment> \<open>the text U+9519 U+8BEF U+FF1A\<close>
  "err_prefix = [CHR 0xE9, CHR 0x94, CHR 0x99, CHR 0xE8, CHR 0xAF, CHR 0xAF, CHR 0xEF, CHR 0xBC, CHR 0x9A]"

definition invalid_expression :: string where
  \<comment> \<open>the text U+65E0 U+6548 U+7684 U+8868 U+8FBE U+5F0F U+FF01\<close>
  "invalid_expression = [CHR 0xE6, CHR 0x97, CHR 0xA0, CHR 0xE6, CHR 0x95, CHR 0x88, CHR 0xE7,
     CHR 0x9A, CHR 0x84, CHR 0xE8, CHR 0xA1, CHR 0xA8, CHR 0xE8, CHR 0xBE, CHR 0xBE, CHR 0xE5,
     CHR 0xBC, CHR 0x8F, CHR 0xEF, CHR 0xBC, CHR 0x81]"

definition invalid_repeat :: string where
  \<comment> \<open>the text U+65E0 U+6548 U+7684 U+91CD U+590D U+68C0 U+5B9A U+6307 U+4EE4 U+FF01\<close>
  "invalid_repeat = [CHR 0xE6, CHR 0x97, CHR 0xA0, CHR 0xE6, CHR 0x95, CHR 0x88, CHR 0xE7,
     CHR 0x9A, CHR 0x84, CHR 0xE9, CHR 0x87, CHR 0x8D, CHR 0xE5, CHR 0xA4, CHR 0x8D, CHR 0xE6,
     CHR 0xA3, CHR 0x80, CHR 0xE5, CHR 0xAE, CHR 0x9A, CHR 0xE6, CHR 0x8C, CHR 0x87, CHR 0xE4,
     CHR 0xBB, CHR 0xA4, CHR 0xEF, CHR 0xBC, CHR 0x81]"

definition critical_success :: string where
  \<comment> \<open>the text U+5927 U+6210 U+529F U+FF01\<close>
  "critical_success = [CHR 0xE5, CHR 0xA4, CHR 0xA7, CHR 0xE6, CHR 0x88, CHR 0x90, CHR 0xE5,
     CHR 0x8A, CHR 0x9F, CHR 0xEF, CHR 0xBC, CHR 0x81]"

definition critical_failure :: string where
  \<comment> \<open>the text U+5927 U+5931 U+8D25 U+FF01\<close>
  "critical_failure = [CHR 0xE5, CHR 0xA4, CHR 0xA7, CHR 0xE5, CHR 0xA4, CHR 0xB1, CHR 0xE8,
     CHR 0xB4, CHR 0xA5, CHR 0xEF, CHR 0xBC, CHR 0x81]"

definition hard_str :: string where
  \<comment> \<open>the text U+56F0 U+96BE\<close>
  "hard_str = [CHR 0xE5, CHR 0x9B, CHR 0xB0, CHR 0xE9, CHR 0x9A, CHR 0xBE]"

definition extreme_str :: string where
  \<comment> \<open>the text U+6781 U+96BE\<close>
  "extreme_str = [CHR 0xE6, CHR 0x9E, CHR 0x81, CHR 0xE9, CHR 0x9A, CHR 0xBE]"

definition check_passed :: string where
  \<comment> \<open>the text U+68C0 U+5B9A U+901A U+8FC7 U+FF01\<close>
  "check_passed = [CHR 0xE6, CHR 0xA3, CHR 0x80, CHR 0xE5, CHR 0xAE, CHR 0x9A, CHR 0xE9,
     CHR 0x80, CHR 0x9A, CHR 0xE8, CHR 0xBF, CHR 0x87, CHR 0xEF, CHR 0xBC, CHR 0x81]"

definition gamble_failed :: string where
  \<comment> \<open>the text U+5B64 U+6CE8 U+4E00 U+63B7 U+5931 U+8D25 U+FF0C U+89C6 U+4E3A U+5927 U+5931 U+8D25 U+FF01\<close>
  "gamble_failed = [CHR 0xE5, CHR 0xAD, CHR 0xA4, CHR 0xE6, CHR 0xB3, CHR 0xA8, CHR 0xE4,
     CHR 0xB8, CHR 0x80, CHR 0xE6, CHR 0x8E, CHR 0xB7, CHR 0xE5, CHR 0xA4, CHR 0xB1, CHR 0xE8,
     CHR 0xB4, CHR 0xA5, CHR 0xEF, CHR 0xBC, CHR 0x8C, CHR 0xE8, CHR 0xA7, CHR 0x86, CHR 0xE4,
     CHR 0xB8, CHR 0xBA, CHR 0xE5, CHR 0xA4, CHR 0xA7, CHR 0xE5, CHR 0xA4, CHR 0xB1, CHR 0xE8,
     CHR 0xB4, CHR 0xA5, CHR 0xEF, CHR 0xBC, CHR 0x81]"

definition check_failed :: string where
  \<comment> \<open>the text U+68C0 U+5B9A U+5931 U+8D25 U+FF01\<close>
  "check_failed = [CHR 0xE6, CHR 0xA3, CHR 0x80, CHR 0xE5, CHR 0xAE, CHR 0x9A, CHR 0xE5,
     CHR 0xA4, CHR 0xB1, CHR 0xE8, CHR 0xB4, CHR 0xA5, CHR 0xEF, CHR 0xBC, CHR 0x81]"

definition trial_prefix :: "nat \<Rightarrow> string" where
  \<comment> \<open>the text U+7B2C SP \<^verbatim>\<open>{i+1}\<close> SP U+6B21 SP \<^verbatim>\<open>->\<close> SP, for the loop index \<open>i\<close>\<close>
  "trial_prefix i = [CHR 0xE7, CHR 0xAC, CHR 0xAC, CHR '' ''] @ str_int (int i + 1) @
     [CHR '' '', CHR 0xE6, CHR 0xAC, CHR 0xA1, CHR '' '', CHR ''-'', CHR ''>'', CHR '' '']"

subsection \<open>The random source\<close>

type_synonym rng = "nat \<Rightarrow> nat"

definition randint :: "int \<Rightarrow> int \<Rightarrow> rng \<Rightarrow> error + (int \<times> rng)" where
  \<comment> \<open>\<^verbatim>\<open>random.randint(a, b)\<close>\<close>
  "randint a b g =
     (if b < a then Inl (Lib (EmptyRange a b))
      else Inr (a + int (g 0 mod nat (b - a + 1)), \<lambda>i. g (Suc i)))"

subsection \<open>\<^verbatim>\<open>roll_dice\<close> and \<^verbatim>\<open>check_success\<close> (the same in both files)\<close>

definition match_dice :: "string \<Rightarrow> (string \<times> string \<times> string option) option" where
  \<comment> \<open>\<^verbatim>\<open>re.match(r'(\d*)d(\d+)([+-]\d+)?', s)\<close>: the three groups of a match at the start
      of \<open>s\<close>. Each run of digits is the longest one: a shorter run would be followed by a
      digit, where the pattern needs \<^verbatim>\<open>d\<close> or allows the match to end.\<close>
  "match_dice s =
     (let g1 = takeWhile is_digit s; r1 = dropWhile is_digit s
      in if r1 \<noteq> [] \<and> hd r1 = CHR ''d'' \<and> takeWhile is_digit (tl r1) \<noteq> []
         then let g2 = takeWhile is_digit (tl r1); r2 = dropWhile is_digit (tl r1)
              in Some (g1, g2,
                   if r2 \<noteq> [] \<and> (hd r2 = CHR ''+'' \<or> hd r2 = CHR ''-'')
                        \<and> takeWhile is_digit (tl r2) \<noteq> []
                   then Some (hd r2 # takeWhile is_digit (tl r2)) else None)
         else None)"

definition signed_value :: "string \<Rightarrow> int" where
  \<comment> \<open>\<^verbatim>\<open>int(s)\<close> for a sign followed by a run of digits\<close>
  "signed_value s =
     (if hd s = CHR ''-'' then - int (digits_value (tl s)) else int (digits_value (tl s)))"

fun draw_rolls :: "nat \<Rightarrow> int \<Rightarrow> rng \<Rightarrow> error + (int list \<times> rng)" where
  \<comment> \<open>\<^verbatim>\<open>[random.randint(1, dice_type) for _ in range(num_dice)]\<close>\<close>
  "draw_rolls 0 dice_type g = Inr ([], g)"
| "draw_rolls (Suc n) dice_type g =
     (case randint 1 dice_type g of
        Inl e \<Rightarrow> Inl e
      | Inr (r, g1) \<Rightarrow>
          (case draw_rolls n dice_type g1 of
             Inl e \<Rightarrow> Inl e
           | Inr (rs, g2) \<Rightarrow> Inr (r # rs, g2)))"

definition roll_dice :: "string \<Rightarrow> rng \<Rightarrow> error + ((int \<times> string) \<times> rng)" where
  "roll_dice dice_expression g =
     (case match_dice dice_expression of
        None \<Rightarrow> Inl (ValueError invalid_expression)
      | Some (g1, g2, g3) \<Rightarrow>
          (let num_dice = (if g1 \<noteq> [] then digits_value g1 else 1);
               dice_type = int (digits_value g2);
               modifier = (case g3 of Some m \<Rightarrow> signed_value m | None \<Rightarrow> 0)
           in case draw_rolls num_dice dice_type g of
                Inl e \<Rightarrow> Inl e
              | Inr (rolls, g') \<Rightarrow>
                  (let total' = sum_list rolls + modifier;
                       roll_details = join ''+'' (map str_int rolls);
                       roll_details = (if modifier \<noteq> 0 then roll_details @ the g3
                                       else roll_details)
                   in Inr ((total', roll_details), g'))))"

definition check_success :: "int \<Rightarrow> int \<Rightarrow> string \<Rightarrow> bool \<times> int" where
  "check_success target total' lvl =
     (let threshold = (if lvl = ''h'' then target div 2
                       else if lvl = ''e'' then target div 5
                       else target);
          success = (total' \<le> threshold)
      in (success, threshold))"

subsection \<open>\<^verbatim>\<open>evaluate_expression\<close>\<close>

definition split_target :: "string \<Rightarrow> error + (int option \<times> string)" where
  \<comment> \<open>The block "if '/' in expression: target, dice_expression = expression.split('/');
      target = int(target); else: target, dice_expression = None, expression", the same
      text in both files. Unpacking raises unless the split has exactly two parts.\<close>
  "split_target expression =
     (if CHR ''/'' \<in> set expression
      then (case split CHR ''/'' expression of
              [] \<Rightarrow> Inl (Lib NotEnoughValues)
            | [p] \<Rightarrow> Inl (Lib NotEnoughValues)
            | [target, dice_expression] \<Rightarrow>
                (case py_int target of
                   None \<Rightarrow> Inl (Lib (InvalidLiteral target))
                 | Some t \<Rightarrow> Inr (Some t, dice_expression))
            | _ \<Rightarrow> Inl (Lib TooManyValues))
      else Inr (None, expression))"

text \<open>\<^verbatim>\<open>src/Dicer.py\<close>: the flags are removed together with the space before them, and
  of \<^verbatim>\<open>-h\<close> and \<^verbatim>\<open>-e\<close> only the first one found.\<close>

definition strip_options_Dicer :: "string \<Rightarrow> bool \<times> string \<times> string" where
  "strip_options_Dicer expression =
     (let gamble = contains ''-g'' expression;
          expression = (if gamble then replace '' -g'' [] expression else expression)
      in if contains ''-h'' expression then (gamble, ''h'', replace '' -h'' [] expression)
         else if contains ''-e'' expression then (gamble, ''e'', replace '' -e'' [] expression)
         else (gamble, ''n'', expression))"

definition report_Dicer ::
    "bool \<Rightarrow> string \<Rightarrow> int option \<Rightarrow> string \<Rightarrow> int \<Rightarrow> string \<Rightarrow> string" where
  \<comment> \<open>from the test for \<^verbatim>\<open>1d100\<close> to the final \<^verbatim>\<open>return\<close>\<close>
  "report_Dicer gamble difficulty target dice_expression total' roll_details =
     (if contains ''1d100'' dice_expression \<and> total' = 1
      then strip dice_expression @ '': '' @ roll_details @ ''='' @ str_int total' @ '', ''
             @ critical_success
      else if contains ''1d100'' dice_expression \<and> total' \<ge> 96
      then strip dice_expression @ '': '' @ roll_details @ ''='' @ str_int total' @ '', ''
             @ critical_failure
      else
        (let result =
           (case target of
              Some t \<Rightarrow>
                (let (success, threshold) = check_success t total' difficulty;
                     difficulty_str = (if difficulty = ''h'' then hard_str
                                       else if difficulty = ''e'' then extreme_str else [])
                 in if success
                    then str_int total' @ ''<='' @ str_int threshold @ '', '' @ difficulty_str
                           @ check_passed
                    else if gamble
                    then str_int total' @ ''>'' @ str_int threshold @ '', '' @ difficulty_str
                           @ gamble_failed
                    else str_int total' @ ''>'' @ str_int threshold @ '', '' @ difficulty_str
                           @ check_failed)
            | None \<Rightarrow> str_int total')
         in strip dice_expression @ '': '' @ roll_details @ ''='' @ str_int total' @ '', ''
              @ result))"

definition evaluate_body_Dicer :: "string \<Rightarrow> rng \<Rightarrow> error + (string \<times> rng)" where
  \<comment> \<open>the body of the \<^verbatim>\<open>try\<close>\<close>
  "evaluate_body_Dicer expression g =
     (let (gamble, difficulty, expression) = strip_options_Dicer expression
      in case split_target expression of
           Inl e \<Rightarrow> Inl e
         | Inr (target, dice_expression) \<Rightarrow>
             (case roll_dice (strip dice_expression) g of
                Inl e \<Rightarrow> Inl e
              | Inr ((total', roll_details), g') \<Rightarrow>
                  Inr (report_Dicer gamble difficulty target dice_expression total'
                         roll_details, g')))"

definition evaluate_expression_Dicer ::
    "(lib_error \<Rightarrow> string) \<Rightarrow> string \<Rightarrow> rng \<Rightarrow> string \<times> rng" where
  "evaluate_expression_Dicer msg expression g =
     (case evaluate_body_Dicer expression g of
        Inl e \<Rightarrow> (err_prefix @ str_error msg e, g)
      | Inr (line, g') \<Rightarrow> (line, g'))"

text \<open>\<^verbatim>\<open>src/dicer.py\<close>: a loop over the dictionary \<^verbatim>\<open>options\<close>, in the order of its keys
  \<^verbatim>\<open>-g\<close>, \<^verbatim>\<open>-h\<close>, \<^verbatim>\<open>-e\<close>, removes every flag found and strips the text each time.\<close>

definition scan_options ::
    "string list \<Rightarrow> (string \<rightharpoonup> bool) \<times> string \<Rightarrow> (string \<rightharpoonup> bool) \<times> string" where
  \<comment> \<open>\<^verbatim>\<open>for option in options: if option in expression: options[option] = True;
      expression = expression.replace(option, '').strip()\<close>\<close>
  "scan_options keys =
     fold (\<lambda>opt (options, expression).
             if contains opt expression
             then (options(opt \<mapsto> True), strip (replace opt [] expression))
             else (options, expression))
          keys"

definition strip_options_dicer :: "string \<Rightarrow> (string \<rightharpoonup> bool) \<times> string \<times> string" where
  "strip_options_dicer expression =
     (let (options, expression) =
            scan_options [''-g'', ''-h'', ''-e'']
              ([''-g'' \<mapsto> False, ''-h'' \<mapsto> False, ''-e'' \<mapsto> False], expression);
          lvl = (if options ''-h'' = Some True then ''h''
                 else if options ''-e'' = Some True then ''e'' else ''n'')
      in (options, lvl, expression))"

definition lvl_map :: "string \<rightharpoonup> string" where
  "lvl_map = [''n'' \<mapsto> [], ''h'' \<mapsto> hard_str, ''e'' \<mapsto> extreme_str]"

definition report_dicer ::
    "(string \<rightharpoonup> bool) \<Rightarrow> string \<Rightarrow> int option \<Rightarrow> string \<Rightarrow> int \<Rightarrow> string \<Rightarrow> string" where
  \<comment> \<open>from the test for \<^verbatim>\<open>1d100\<close> to the final \<^verbatim>\<open>return\<close>; \<open>lvl\<close> is always a key of
      \<open>lvl_map\<close>\<close>
  "report_dicer options lvl target dice_expression total' roll_details =
     (if contains ''1d100'' dice_expression \<and> total' = 1
      then strip dice_expression @ '': '' @ roll_details @ ''='' @ str_int total' @ '', ''
             @ critical_success
      else if contains ''1d100'' dice_expression \<and> total' \<ge> 96
      then strip dice_expression @ '': '' @ roll_details @ ''='' @ str_int total' @ '', ''
             @ critical_failure
      else
        (let roll_result =
           (case target of
              Some t \<Rightarrow>
                (let (success, threshold) = check_success t total' lvl
                 in if success
                    then str_int total' @ ''<='' @ str_int threshold @ '', ''
                           @ the (lvl_map lvl) @ check_passed
                    else if options ''-g'' = Some True
                    then str_int total' @ ''>'' @ str_int threshold @ '', ''
                           @ the (lvl_map lvl) @ gamble_failed
                    else str_int total' @ ''>'' @ str_int threshold @ '', ''
                           @ the (lvl_map lvl) @ check_failed)
            | None \<Rightarrow> str_int total')
         in strip dice_expression @ '': '' @ roll_details @ ''='' @ str_int total' @ '', ''
              @ roll_result))"

definition evaluate_body_dicer :: "string \<Rightarrow> rng \<Rightarrow> error + (string \<times> rng)" where
  \<comment> \<open>the body of the \<^verbatim>\<open>try\<close>\<close>
  "evaluate_body_dicer expression g =
     (let (options, lvl, expression) = strip_options_dicer expression
      in case split_target expression of
           Inl e \<Rightarrow> Inl e
         | Inr (target, dice_expression) \<Rightarrow>
             (case roll_dice (strip dice_expression) g of
                Inl e \<Rightarrow> Inl e
              | Inr ((total', roll_details), g') \<Rightarrow>
                  Inr (report_dicer options lvl target dice_expression total'
                         roll_details, g')))"

definition evaluate_expression_dicer ::
    "(lib_error \<Rightarrow> string) \<Rightarrow> string \<Rightarrow> rng \<Rightarrow> string \<times> rng" where
  "evaluate_expression_dicer msg expression g =
     (case evaluate_body_dicer expression g of
        Inl e \<Rightarrow> (err_prefix @ str_error msg e, g)
      | Inr (line, g') \<Rightarrow> (line, g'))"

subsection \<open>\<^verbatim>\<open>quick_roll\<close>, \<^verbatim>\<open>repeat_roll\<close> and \<^verbatim>\<open>_execute_rolls\<close> (the same in both files)\<close>

definition match_quick :: "string \<Rightarrow> string option option" where
  \<comment> \<open>\<^verbatim>\<open>re.match(r'\.r\s*(\d+)?', command)\<close>: \<open>None\<close> is no match, \<open>Some None\<close> a match
      without the group\<close>
  "match_quick command =
     (if prefix ''.r'' command
      then (let d = takeWhile is_digit (dropWhile is_space (drop 2 command))
            in Some (if d \<noteq> [] then Some d else None))
      else None)"

definition quick_body :: "string \<Rightarrow> rng \<Rightarrow> error + (string \<times> rng)" where
  \<comment> \<open>the body of the \<^verbatim>\<open>try\<close> of \<^verbatim>\<open>quick_roll\<close>\<close>
  "quick_body command g =
     (case match_quick command of
        Some g1 \<Rightarrow>
          (let dice_type = (case g1 of Some d \<Rightarrow> digits_value d | None \<Rightarrow> 100);
               dice_expression = ''1d'' @ str_int (int dice_type)
           in case roll_dice dice_expression g of
                Inl e \<Rightarrow> Inl e
              | Inr ((total', roll_details), g') \<Rightarrow>
                  Inr (dice_expression @ '': '' @ roll_details @ ''='' @ str_int total', g'))
      | None \<Rightarrow> Inl (ValueError invalid_expression))"

definition quick_roll :: "(lib_error \<Rightarrow> string) \<Rightarrow> string \<Rightarrow> rng \<Rightarrow> string \<times> rng" where
  "quick_roll msg command g =
     (case quick_body command g of
        Inl e \<Rightarrow> (err_prefix @ str_error msg e, g)
      | Inr (line, g') \<Rightarrow> (line, g'))"

fun ws_rest :: "nat \<Rightarrow> string \<Rightarrow> string option" where
  \<comment> \<open>\<^verbatim>\<open>\s+(.+)\<close> at the start of \<open>s\<close>, where \<^verbatim>\<open>\s+\<close> may take at most \<open>k\<close> characters:
      the longest run is tried first, and \<^verbatim>\<open>(.+)\<close> needs a character other than a line
      feed right after the run, from where it extends to the next line feed or to the end\<close>
  "ws_rest 0 s = None"
| "ws_rest (Suc k) s =
     (if Suc k < length s \<and> s ! Suc k \<noteq> CHR 0x0A
      then Some (takeWhile (\<lambda>c. c \<noteq> CHR 0x0A) (drop (Suc k) s))
      else ws_rest k s)"

definition match_ws_rest :: "string \<Rightarrow> string option" where
  \<comment> \<open>\<^verbatim>\<open>\s+(.+)\<close> at the start of \<open>s\<close>: the group\<close>
  "match_ws_rest s = ws_rest (length (takeWhile is_space s)) s"

definition match_m :: "string \<Rightarrow> (string \<times> string) option" where
  \<comment> \<open>\<^verbatim>\<open>re.match(r'\.m\s+-(\d+)\s+(.+)', command)\<close>: the two groups. The first \<^verbatim>\<open>\s+\<close> and
      \<^verbatim>\<open>\d+\<close> take their longest runs: after a shorter one the next character is a space
      or a digit, where the pattern needs \<^verbatim>\<open>-\<close> or a space.\<close>
  "match_m command =
     (if prefix ''.m'' command
      then (let r1 = dropWhile is_space (drop 2 command)
            in if takeWhile is_space (drop 2 command) \<noteq> [] \<and> r1 \<noteq> [] \<and> hd r1 = CHR ''-''
                    \<and> takeWhile is_digit (tl r1) \<noteq> []
               then (case match_ws_rest (dropWhile is_digit (tl r1)) of
                       Some e \<Rightarrow> Some (takeWhile is_digit (tl r1), e)
                     | None \<Rightarrow> None)
               else None)
      else None)"

definition match_dt :: "string \<Rightarrow> (string \<times> string) option" where
  \<comment> \<open>\<^verbatim>\<open>re.match(r'\.(d|t)\s+(.+)', command)\<close>: the two groups\<close>
  "match_dt command =
     (if prefix ''.d'' command \<or> prefix ''.t'' command
      then (case match_ws_rest (drop 2 command) of
              Some e \<Rightarrow> Some ([command ! 1], e)
            | None \<Rightarrow> None)
      else None)"

definition execute_rolls ::
    "(string \<Rightarrow> rng \<Rightarrow> string \<times> rng) \<Rightarrow> nat \<Rightarrow> string \<Rightarrow> rng \<Rightarrow> string \<times> rng" where
  \<comment> \<open>\<^verbatim>\<open>_execute_rolls\<close>; \<open>ev\<close> is the \<^verbatim>\<open>evaluate_expression\<close> of the same file\<close>
  "execute_rolls ev times' expression g =
     (let (results, g') =
            fold (\<lambda>i (results, g).
                    let (roll_result, g') = ev expression g
                    in (results @ [trial_prefix i @ roll_result], g'))
                 [0..<times'] ([], g)
      in (join [CHR 0x0A] results, g'))"

definition repeat_body ::
    "(string \<Rightarrow> rng \<Rightarrow> string \<times> rng) \<Rightarrow> string \<Rightarrow> rng \<Rightarrow> error + (string \<times> rng)" where
  \<comment> \<open>the body of the \<^verbatim>\<open>try\<close> of \<^verbatim>\<open>repeat_roll\<close>\<close>
  "repeat_body ev command g =
     (case match_m command of
        Some (n, expression) \<Rightarrow> Inr (execute_rolls ev (digits_value n) expression g)
      | None \<Rightarrow>
          (case match_dt command of
             Some (repeat_type, expression) \<Rightarrow>
               Inr (execute_rolls ev (if repeat_type = ''d'' then 2 else 3) expression g)
           | None \<Rightarrow> Inl (ValueError invalid_repeat)))"

definition repeat_roll ::
    "(string \<Rightarrow> rng \<Rightarrow> string \<times> rng) \<Rightarrow> (lib_error \<Rightarrow> string) \<Rightarrow> string \<Rightarrow> rng
       \<Rightarrow> string \<times> rng" where
  "repeat_roll ev msg command g =
     (case repeat_body ev command g of
        Inl e \<Rightarrow> (err_prefix @ str_error msg e, g)
      | Inr (text, g') \<Rightarrow> (text, g'))"

subsection \<open>Notions used to state the properties\<close>

definition draws :: "nat \<Rightarrow> int \<Rightarrow> rng \<Rightarrow> int list" where
  \<comment> \<open>the outcomes of \<open>n\<close> successive calls \<^verbatim>\<open>random.randint(1, sides)\<close> on the source \<open>g\<close>\<close>
  "draws n sides g = map (\<lambda>i. 1 + int (g i mod nat sides)) [0..<n]"

definition no_options :: "string \<rightharpoonup> bool" where
  \<comment> \<open>the dictionary \<^verbatim>\<open>options\<close> of \<^verbatim>\<open>src/dicer.py\<close> before its loop\<close>
  "no_options = [''-g'' \<mapsto> False, ''-h'' \<mapsto> False, ''-e'' \<mapsto> False]"

definition fixed_draws :: "nat \<Rightarrow> rng" where
  \<comment> \<open>the random source whose raw draws are all \<open>r\<close>: every die shows the same face\<close>
  "fixed_draws r i = r"

definition example_msg :: "lib_error \<Rightarrow> string" where
  \<comment> \<open>one rendering of the library's messages, for the evaluation of examples\<close>
  "example_msg e =
     (case e of
        InvalidLiteral s \<Rightarrow> ''invalid literal for int() with base 10''
      | TooManyValues \<Rightarrow> ''too many values to unpack (expected 2)''
      | NotEnoughValues \<Rightarrow> ''not enough values to unpack''
      | EmptyRange a b \<Rightarrow> ''empty range for randrange()'')"

definition after_trials ::
    "(string \<Rightarrow> rng \<Rightarrow> string \<times> rng) \<Rightarrow> string \<Rightarrow> nat \<Rightarrow> rng \<Rightarrow> rng" where
  \<comment> \<open>the random source after \<open>k\<close> successive evaluations of the expression\<close>
  "after_trials ev expression k g = ((\<lambda>g. snd (ev expression g)) ^^ k) g"

definition trial_line ::
    "(string \<Rightarrow> rng \<Rightarrow> string \<times> rng) \<Rightarrow> string \<Rightarrow> rng \<Rightarrow> nat \<Rightarrow> string" where
  \<comment> \<open>the line of the trial with loop index \<open>i\<close> (trial number \<open>i + 1\<close>): its prefix and
      the result of evaluating the expression on the source left by the trials before\<close>
  "trial_line ev expression g i =
     trial_prefix i @ fst (ev expression (after_trials ev expression i g))"

declare replace.simps [simp del]
declare str_nat.simps [simp del]


section \<open>Properties\<close>

subsection \<open>The random source and \<^verbatim>\<open>roll_dice\<close>\<close>

lemma draw_rolls_ok:
  "1 \<le> sides \<Longrightarrow> draw_rolls n sides g = Inr (draws n sides g, \<lambda>i. g (i + n))"
proof (induction n arbitrary: g)
  case 0
  then show ?case by (simp add: draws_def)
next
  case (Suc n)
  have r: "randint 1 sides g = Inr (1 + int (g 0 mod nat sides), \<lambda>i. g (Suc i))"
    using Suc.prems by (simp add: randint_def)
  have m: "draws (Suc n) sides g = (1 + int (g 0 mod nat sides)) # draws n sides (\<lambda>i. g (Suc i))"
    by (simp add: draws_def upt_conv_Cons map_Suc_upt [symmetric] del: upt_Suc)
  show ?case
    using Suc.prems by (simp add: r m Suc.IH)
qed

lemma draws_length: "length (draws n sides g) = n"
  by (simp add: draws_def)

lemma draws_range:
  assumes s: "1 \<le> sides" and m: "r \<in> set (draws n sides g)"
  shows "1 \<le> r \<and> r \<le> sides"
proof -
  obtain i where r: "r = 1 + int (g i mod nat sides)"
    using m by (auto simp: draws_def)
  have "g i mod nat sides < nat sides" using s by simp
  then have "int (g i mod nat sides) < sides" using s by linarith
  then show ?thesis using r by simp
qed

lemma draw_rolls_empty_range:
  "sides < 1 \<Longrightarrow> draw_rolls (Suc n) sides g = Inl (Lib (EmptyRange 1 sides))"
  by (simp add: randint_def)

lemma roll_dice_ok:
  assumes "match_dice s = Some (g1, g2, g3)" and "1 \<le> digits_value g2"
  shows "roll_dice s g =
    Inr ((sum_list (draws (if g1 \<noteq> [] then digits_value g1 else 1) (int (digits_value g2)) g)
            + (case g3 of Some m \<Rightarrow> signed_value m | None \<Rightarrow> 0),
          join ''+'' (map str_int
              (draws (if g1 \<noteq> [] then digits_value g1 else 1) (int (digits_value g2)) g))
            @ (if (case g3 of Some m \<Rightarrow> signed_value m | None \<Rightarrow> 0) \<noteq> 0 then the g3 else [])),
         \<lambda>i. g (i + (if g1 \<noteq> [] then digits_value g1 else 1)))"
  using assms by (simp add: roll_dice_def draw_rolls_ok Let_def)

subsection \<open>The stages of \<^verbatim>\<open>evaluate_expression\<close>\<close>

lemma strip_options_Dicer_plain:
  "\<not> contains ''-g'' e \<Longrightarrow> \<not> contains ''-h'' e \<Longrightarrow> \<not> contains ''-e'' e
   \<Longrightarrow> strip_options_Dicer e = (False, ''n'', e)"
  by (simp add: strip_options_Dicer_def)

lemma strip_options_dicer_plain:
  "\<not> contains ''-g'' e \<Longrightarrow> \<not> contains ''-h'' e \<Longrightarrow> \<not> contains ''-e'' e
   \<Longrightarrow> strip_options_dicer e = (no_options, ''n'', e)"
  by (simp add: strip_options_dicer_def scan_options_def no_options_def)

lemma evaluate_Dicer_line:
  assumes "strip_options_Dicer expression = (gamble, difficulty, e)"
    and "split_target e = Inr (target, d)"
    and "roll_dice (strip d) g = Inr ((t, details), g')"
  shows "evaluate_expression_Dicer msg expression g =
           (report_Dicer gamble difficulty target d t details, g')"
  using assms by (simp add: evaluate_expression_Dicer_def evaluate_body_Dicer_def)

lemma evaluate_dicer_line:
  assumes "strip_options_dicer expression = (options, lvl, e)"
    and "split_target e = Inr (target, d)"
    and "roll_dice (strip d) g = Inr ((t, details), g')"
  shows "evaluate_expression_dicer msg expression g =
           (report_dicer options lvl target d t details, g')"
  using assms by (simp add: evaluate_expression_dicer_def evaluate_body_dicer_def)

lemma evaluate_Dicer_split_error:
  assumes "strip_options_Dicer expression = (gamble, difficulty, e)"
    and "split_target e = Inl err"
  shows "evaluate_expression_Dicer msg expression g = (err_prefix @ str_error msg err, g)"
  using assms by (simp add: evaluate_expression_Dicer_def evaluate_body_Dicer_def)

lemma evaluate_dicer_split_error:
  assumes "strip_options_dicer expression = (options, lvl, e)"
    and "split_target e = Inl err"
  shows "evaluate_expression_dicer msg expression g = (err_prefix @ str_error msg err, g)"
  using assms by (simp add: evaluate_expression_dicer_def evaluate_body_dicer_def)

lemma evaluate_Dicer_roll_error:
  assumes "strip_options_Dicer expression = (gamble, difficulty, e)"
    and "split_target e = Inr (target, d)"
    and "roll_dice (strip d) g = Inl err"
  shows "evaluate_expression_Dicer msg expression g = (err_prefix @ str_error msg err, g)"
  using assms by (simp add: evaluate_expression_Dicer_def evaluate_body_Dicer_def)

lemma evaluate_dicer_roll_error:
  assumes "strip_options_dicer expression = (options, lvl, e)"
    and "split_target e = Inr (target, d)"
    and "roll_dice (strip d) g = Inl err"
  shows "evaluate_expression_dicer msg expression g = (err_prefix @ str_error msg err, g)"
  using assms by (simp add: evaluate_expression_dicer_def evaluate_body_dicer_def)

subsection \<open>The dice text \<^verbatim>\<open>4d100\<close> and the test for \<^verbatim>\<open>1d100\<close>\<close>



lemma some_values:
  "digits_value ''100'' = 100" "digits_value ''4'' = 4" "digits_value ''1'' = 1"
  "signed_value ''+3'' = 3"
  by code_simp+






subsection \<open>\<^verbatim>\<open>roll_dice\<close> on a valid dice text\<close>

lemma example_3d6:
  "match_dice ''3d6+2'' = Some (''3'', ''6'', Some ''+2'')"
  "(if ''3'' \<noteq> [] then digits_value ''3'' else 1) = 3"
  "int (digits_value ''6'') = 6"
  "(case Some ''+2'' of Some m \<Rightarrow> signed_value m | None \<Rightarrow> 0) = 2"
  by code_simp+

text \<open>
  Claim C3. For every text that \<^verbatim>\<open>roll_dice\<close> accepts, with count at least 1 and sides at
  least 1, the call returns: there are exactly count draws, each between 1 and sides, the
  total is their sum plus the modifier, and the breakdown is the draws joined with \<^verbatim>\<open>+\<close>,
  followed by the modifier text exactly when the modifier is not zero.
\<close>

theorem roll_dice_valid_spec:
  assumes "match_dice dice_expression = Some (g1, g2, g3)"
    and "num_dice = (if g1 \<noteq> [] then digits_value g1 else 1)"
    and "dice_type = int (digits_value g2)"
    and "modifier = (case g3 of Some m \<Rightarrow> signed_value m | None \<Rightarrow> 0)"
    and "1 \<le> num_dice" and "1 \<le> dice_type"
  shows "\<exists>rolls g'.
           roll_dice dice_expression g =
             Inr ((sum_list rolls + modifier,
                   join ''+'' (map str_int rolls) @ (if modifier \<noteq> 0 then the g3 else [])), g')
           \<and> length rolls = num_dice
           \<and> (\<forall>r \<in> set rolls. 1 \<le> r \<and> r \<le> dice_type)"
proof -
  have s: "1 \<le> digits_value g2" using assms(3,6) by simp
  have "roll_dice dice_expression g =
          Inr ((sum_list (draws num_dice dice_type g) + modifier,
                join ''+'' (map str_int (draws num_dice dice_type g))
                  @ (if modifier \<noteq> 0 then the g3 else [])), \<lambda>i. g (i + num_dice))"
    using roll_dice_ok [OF assms(1) s, of g] assms(2,3,4) by simp
  moreover have "length (draws num_dice dice_type g) = num_dice"
    by (rule draws_length)
  moreover have "\<forall>r \<in> set (draws num_dice dice_type g). 1 \<le> r \<and> r \<le> dice_type"
    using draws_range [OF assms(6)] by blast
  ultimately show ?thesis by blast
qed

theorem roll_dice_valid_spec_witness:
  "match_dice ''3d6+2'' = Some (''3'', ''6'', Some ''+2'')
   \<and> (\<exists>rolls g'.
         roll_dice ''3d6+2'' (\<lambda>i. i + 3) =
           Inr ((sum_list rolls + 2, join ''+'' (map str_int rolls) @ ''+2''), g')
         \<and> length rolls = 3
         \<and> (\<forall>r \<in> set rolls. 1 \<le> r \<and> r \<le> 6))"
  using roll_dice_valid_spec [OF example_3d6(1) example_3d6(2) [symmetric] example_3d6(3) [symmetric]
      example_3d6(4) [symmetric], of "\<lambda>i. i + 3"] example_3d6(1)
  by simp

subsection \<open>Degenerate dice texts: no dice, no sides\<close>

lemma roll_dice_no_dice:
  assumes "match_dice s = Some (g1, g2, g3)" and "g1 \<noteq> []" and "digits_value g1 = 0"
  shows "roll_dice s g =
           Inr ((case g3 of Some m \<Rightarrow> signed_value m | None \<Rightarrow> 0,
                 if (case g3 of Some m \<Rightarrow> signed_value m | None \<Rightarrow> 0) \<noteq> 0 then the g3 else []),
                g)"
  using assms by (simp add: roll_dice_def)

lemma roll_dice_no_sides:
  assumes "match_dice s = Some (g1, g2, g3)" and "digits_value g2 = 0"
    and "1 \<le> (if g1 \<noteq> [] then digits_value g1 else 1)"
  shows "roll_dice s g = Inl (Lib (EmptyRange 1 0))"
proof -
  obtain n where n: "(if g1 \<noteq> [] then digits_value g1 else 1) = Suc n"
    using assms(3) by (cases "if g1 \<noteq> [] then digits_value g1 else 1") auto
  have d: "draw_rolls (Suc n) 0 g = Inl (Lib (EmptyRange 1 0))"
    by (rule draw_rolls_empty_range) simp
  show ?thesis
    using assms(1,2) n d by (simp add: roll_dice_def del: draw_rolls.simps)
qed

lemma plain_0d6:
  "\<not> contains ''-g'' ''0d6''" "\<not> contains ''-h'' ''0d6''" "\<not> contains ''-e'' ''0d6''"
  "split_target ''0d6'' = Inr (None, ''0d6'')"
  "match_dice (strip ''0d6'') = Some (''0'', ''6'', None)"
  "\<not> contains ''1d100'' ''0d6''" "strip ''0d6'' = ''0d6''"
  "digits_value ''0'' = 0" "str_int 0 = ''0''"
  by code_simp+

lemma roll_0d6: "roll_dice (strip ''0d6'') g = Inr ((0, []), g)"
  using roll_dice_no_dice [OF plain_0d6(5), of g] by (simp add: plain_0d6)

lemma evaluate_0d6:
  "evaluate_expression_Dicer msg ''0d6'' g = (''0d6: =0, 0'', g)"
  "evaluate_expression_dicer msg ''0d6'' g = (''0d6: =0, 0'', g)"
proof -
  have "evaluate_expression_Dicer msg ''0d6'' g =
          (report_Dicer False ''n'' None ''0d6'' 0 [], g)"
    by (rule evaluate_Dicer_line [OF strip_options_Dicer_plain plain_0d6(4) roll_0d6])
       (rule plain_0d6)+
  then show "evaluate_expression_Dicer msg ''0d6'' g = (''0d6: =0, 0'', g)"
    by (simp add: report_Dicer_def plain_0d6)
  have "evaluate_expression_dicer msg ''0d6'' g =
          (report_dicer no_options ''n'' None ''0d6'' 0 [], g)"
    by (rule evaluate_dicer_line [OF strip_options_dicer_plain plain_0d6(4) roll_0d6])
       (rule plain_0d6)+
  then show "evaluate_expression_dicer msg ''0d6'' g = (''0d6: =0, 0'', g)"
    by (simp add: report_dicer_def plain_0d6)
qed

lemma example_degenerate:
  "match_dice ''0d6+2'' = Some (''0'', ''6'', Some ''+2'')"
  "match_dice ''1d0'' = Some (''1'', ''0'', None)"
  "strip_options_Dicer ''1d0'' = (False, ''n'', ''1d0'')"
  "split_target ''1d0'' = Inr (None, ''1d0'')"
  "match_dice (strip ''1d0'') = Some (''1'', ''0'', None)"
  "signed_value ''+2'' = 2"
  by code_simp+

lemma example_degenerate_dicer:
  "strip_options_dicer ''1d0'' = (no_options, ''n'', ''1d0'')"
  by (rule strip_options_dicer_plain; code_simp)

text \<open>
  Claim C10, as stated, at its own example and at \<^verbatim>\<open>0d6+2\<close>: both files return
  \<^verbatim>\<open>0d6: =0, 0\<close> for \<^verbatim>\<open>0d6\<close> (the bare total follows the comma when there is no target), not
  \<^verbatim>\<open>0d6: =0\<close>; and the breakdown of \<^verbatim>\<open>0d6+2\<close> is \<^verbatim>\<open>+2\<close>, not the empty text.
\<close>

theorem zero_count_counterexample:
  "fst (evaluate_expression_Dicer example_msg ''0d6'' (fixed_draws 0)) = ''0d6: =0, 0''
   \<and> fst (evaluate_expression_dicer example_msg ''0d6'' (fixed_draws 0)) = ''0d6: =0, 0''
   \<and> ''0d6: =0, 0'' \<noteq> ''0d6: =0''
   \<and> map_sum id fst (roll_dice ''0d6+2'' (fixed_draws 0)) = Inr (2, ''+2'')
   \<and> ''+2'' \<noteq> ''''"
  by code_simp

text \<open>
  Claim C10, amended. For every dice text with an explicit count of 0, \<^verbatim>\<open>roll_dice\<close>
  succeeds: it draws nothing (the random source is returned as it was), the total is the
  modifier, and the breakdown is the modifier text when the modifier is not zero and empty
  otherwise; so \<^verbatim>\<open>evaluate_expression('0d6')\<close> returns \<^verbatim>\<open>0d6: =0, 0\<close> in both files. For
  every dice text with 0 sides and a count of at least 1, \<^verbatim>\<open>roll_dice\<close> raises (the empty
  range of \<^verbatim>\<open>randint(1, 0)\<close>), and an expression whose dice text it is evaluates, in both
  files, to the error prefix followed by the message of that exception.
\<close>

theorem degenerate_dice:
  "(match_dice s = Some (g1, g2, g3) \<and> g1 \<noteq> [] \<and> digits_value g1 = 0 \<longrightarrow>
      roll_dice s g =
        Inr ((case g3 of Some m \<Rightarrow> signed_value m | None \<Rightarrow> 0,
              if (case g3 of Some m \<Rightarrow> signed_value m | None \<Rightarrow> 0) \<noteq> 0 then the g3 else []),
             g))
   \<and> evaluate_expression_Dicer msg ''0d6'' g = (''0d6: =0, 0'', g)
   \<and> evaluate_expression_dicer msg ''0d6'' g = (''0d6: =0, 0'', g)
   \<and> (match_dice s = Some (g1, g2, g3) \<and> digits_value g2 = 0
        \<and> 1 \<le> (if g1 \<noteq> [] then digits_value g1 else 1) \<longrightarrow>
      roll_dice s g = Inl (Lib (EmptyRange 1 0)))
   \<and> (split_target e = Inr (target, d) \<and> match_dice (strip d) = Some (g1, g2, g3)
        \<and> digits_value g2 = 0 \<and> 1 \<le> (if g1 \<noteq> [] then digits_value g1 else 1) \<longrightarrow>
      (strip_options_Dicer expression = (gamble, difficulty, e) \<longrightarrow>
         evaluate_expression_Dicer msg expression g = (err_prefix @ msg (EmptyRange 1 0), g))
      \<and> (strip_options_dicer expression = (options, lvl, e) \<longrightarrow>
         evaluate_expression_dicer msg expression g = (err_prefix @ msg (EmptyRange 1 0), g)))"
proof -
  have a: "match_dice s = Some (g1, g2, g3) \<and> g1 \<noteq> [] \<and> digits_value g1 = 0 \<longrightarrow>
      roll_dice s g =
        Inr ((case g3 of Some m \<Rightarrow> signed_value m | None \<Rightarrow> 0,
              if (case g3 of Some m \<Rightarrow> signed_value m | None \<Rightarrow> 0) \<noteq> 0 then the g3 else []),
             g)"
    using roll_dice_no_dice by blast
  have b: "match_dice s = Some (g1, g2, g3) \<and> digits_value g2 = 0
        \<and> 1 \<le> (if g1 \<noteq> [] then digits_value g1 else 1) \<longrightarrow>
      roll_dice s g = Inl (Lib (EmptyRange 1 0))"
    using roll_dice_no_sides by blast
  have c: "split_target e = Inr (target, d) \<and> match_dice (strip d) = Some (g1, g2, g3)
        \<and> digits_value g2 = 0 \<and> 1 \<le> (if g1 \<noteq> [] then digits_value g1 else 1) \<longrightarrow>
      (strip_options_Dicer expression = (gamble, difficulty, e) \<longrightarrow>
         evaluate_expression_Dicer msg expression g = (err_prefix @ msg (EmptyRange 1 0), g))
      \<and> (strip_options_dicer expression = (options, lvl, e) \<longrightarrow>
         evaluate_expression_dicer msg expression g = (err_prefix @ msg (EmptyRange 1 0), g))"
  proof (intro impI conjI)
    assume h: "split_target e = Inr (target, d) \<and> match_dice (strip d) = Some (g1, g2, g3)
        \<and> digits_value g2 = 0 \<and> 1 \<le> (if g1 \<noteq> [] then digits_value g1 else 1)"
    then have r: "roll_dice (strip d) g = Inl (Lib (EmptyRange 1 0))"
      using roll_dice_no_sides by blast
    {
      assume "strip_options_Dicer expression = (gamble, difficulty, e)"
      from evaluate_Dicer_roll_error [OF this _ r, of target msg] h
      show "evaluate_expression_Dicer msg expression g = (err_prefix @ msg (EmptyRange 1 0), g)"
        by simp
    }
    {
      assume "strip_options_dicer expression = (options, lvl, e)"
      from evaluate_dicer_roll_error [OF this _ r, of target msg] h
      show "evaluate_expression_dicer msg expression g = (err_prefix @ msg (EmptyRange 1 0), g)"
        by simp
    }
  qed
  show ?thesis
    using a b c evaluate_0d6 [of msg g] by blast
qed

theorem degenerate_dice_witness:
  "match_dice ''0d6+2'' = Some (''0'', ''6'', Some ''+2'')
   \<and> roll_dice ''0d6+2'' (\<lambda>i. 0) = Inr ((2, ''+2''), \<lambda>i. 0)
   \<and> match_dice ''1d0'' = Some (''1'', ''0'', None)
   \<and> roll_dice ''1d0'' (\<lambda>i. 0) = Inl (Lib (EmptyRange 1 0))
   \<and> evaluate_expression_Dicer example_msg ''1d0'' (\<lambda>i. 0)
       = (err_prefix @ ''empty range for randrange()'', \<lambda>i. 0)
   \<and> evaluate_expression_dicer example_msg ''1d0'' (\<lambda>i. 0)
       = (err_prefix @ ''empty range for randrange()'', \<lambda>i. 0)"
proof -
  have v: "digits_value ''0'' = 0" "digits_value ''1'' = 1" by code_simp+
  have a: "roll_dice ''0d6+2'' (\<lambda>i. 0) = Inr ((2, ''+2''), \<lambda>i. 0)"
    using degenerate_dice [of "''0d6+2''" "''0''" "''6''" "Some ''+2''" "\<lambda>i. 0"]
    by (simp add: example_degenerate v)
  have b: "roll_dice ''1d0'' (\<lambda>i. 0) = Inl (Lib (EmptyRange 1 0))"
    using degenerate_dice [of "''1d0''" "''1''" "''0''" None "\<lambda>i. 0"]
    by (simp add: example_degenerate v)
  have c: "evaluate_expression_Dicer example_msg ''1d0'' (\<lambda>i. 0)
       = (err_prefix @ example_msg (EmptyRange 1 0), \<lambda>i. 0)
     \<and> evaluate_expression_dicer example_msg ''1d0'' (\<lambda>i. 0)
       = (err_prefix @ example_msg (EmptyRange 1 0), \<lambda>i. 0)"
    using degenerate_dice [of "''1d0''" "''1''" "''0''" None "\<lambda>i. 0" example_msg
        "''1d0''" None "''1d0''" "''1d0''" False "''n''" no_options "''n''"]
    by (simp add: example_degenerate example_degenerate_dicer v)
  show ?thesis
    using a b c by (simp add: example_degenerate example_msg_def)
qed

subsection \<open>The critical outcomes of the hundred-sided die\<close>

lemma example_gamble_Dicer:
  "strip_options_Dicer ''30/1d100 -g'' = (True, ''n'', ''30/1d100'')"
  "split_target ''30/1d100'' = Inr (Some 30, ''1d100'')"
  "contains ''1d100'' ''1d100''"
  "strip ''1d100'' = ''1d100''"
  "map_sum id fst (roll_dice ''1d100'' (\<lambda>i. 0)) = Inr (1, ''1'')"
  "map_sum id fst (roll_dice ''1d100'' (\<lambda>i. 98)) = Inr (99, ''99'')"
  "str_int 99 = ''99''" "str_int 1 = ''1''"
  by code_simp+

lemma example_gamble_flags:
  "contains ''-g'' ''30/1d100 -g''" "strip (replace ''-g'' [] ''30/1d100 -g'') = ''30/1d100''"
  "\<not> contains ''-h'' ''30/1d100''" "\<not> contains ''-e'' ''30/1d100''"
  by code_simp+

lemma example_gamble_dicer:
  "strip_options_dicer ''30/1d100 -g'' = (no_options(''-g'' \<mapsto> True), ''n'', ''30/1d100'')"
  by (simp add: strip_options_dicer_def scan_options_def no_options_def example_gamble_flags)

lemma roll_example_1d100:
  "roll_dice ''1d100'' (\<lambda>i. 0) = Inr ((1, ''1''), \<lambda>i. 0)"
  "roll_dice ''1d100'' (\<lambda>i. 98) = Inr ((99, ''99''), \<lambda>i. 98)"
proof -
  have m: "match_dice ''1d100'' = Some (''1'', ''100'', None)" by code_simp
  have v: "join ''+'' (map str_int (draws 1 100 (\<lambda>i. 0))) = ''1''"
    "sum_list (draws 1 100 (\<lambda>i. 0)) = 1"
    "join ''+'' (map str_int (draws 1 100 (\<lambda>i. 98))) = ''99''"
    "sum_list (draws 1 100 (\<lambda>i. 98)) = 99" by code_simp+
  show "roll_dice ''1d100'' (\<lambda>i. 0) = Inr ((1, ''1''), \<lambda>i. 0)"
    using roll_dice_ok [OF m, of "\<lambda>i. 0"] v by (simp add: some_values)
  show "roll_dice ''1d100'' (\<lambda>i. 98) = Inr ((99, ''99''), \<lambda>i. 98)"
    using roll_dice_ok [OF m, of "\<lambda>i. 98"] v by (simp add: some_values)
qed

text \<open>
  Claim C1. Let the expression, after the removal of the flags, split into a target (or
  none) and a dice text, let the dice text contain \<^verbatim>\<open>1d100\<close>, and let the roll return a
  total. If the total is 1, the result in both files is the dice text, the breakdown, the
  total and the critical-success clause; if the total is at least 96, it is the same with
  the critical-failure clause. Neither line depends on the target, the difficulty or the
  gamble flag: the threshold logic is skipped.
\<close>

theorem d100_critical_override:
  assumes "split_target e = Inr (target, dice_expression)"
    and "roll_dice (strip dice_expression) g = Inr ((t, roll_details), g')"
    and "contains ''1d100'' dice_expression"
  shows "(strip_options_Dicer expression = (gamble, difficulty, e) \<longrightarrow>
            (t = 1 \<longrightarrow> evaluate_expression_Dicer msg expression g =
               (strip dice_expression @ '': '' @ roll_details @ ''='' @ str_int 1 @ '', ''
                  @ critical_success, g'))
          \<and> (96 \<le> t \<longrightarrow> evaluate_expression_Dicer msg expression g =
               (strip dice_expression @ '': '' @ roll_details @ ''='' @ str_int t @ '', ''
                  @ critical_failure, g')))
       \<and> (strip_options_dicer expression = (options, lvl, e) \<longrightarrow>
            (t = 1 \<longrightarrow> evaluate_expression_dicer msg expression g =
               (strip dice_expression @ '': '' @ roll_details @ ''='' @ str_int 1 @ '', ''
                  @ critical_success, g'))
          \<and> (96 \<le> t \<longrightarrow> evaluate_expression_dicer msg expression g =
               (strip dice_expression @ '': '' @ roll_details @ ''='' @ str_int t @ '', ''
                  @ critical_failure, g')))"
proof (intro conjI impI)
  assume o: "strip_options_Dicer expression = (gamble, difficulty, e)"
  note l = evaluate_Dicer_line [OF o assms(1,2), of msg]
  {
    assume "t = 1"
    then show "evaluate_expression_Dicer msg expression g =
               (strip dice_expression @ '': '' @ roll_details @ ''='' @ str_int 1 @ '', ''
                  @ critical_success, g')"
      using l assms(3) by (simp add: report_Dicer_def)
  }
  {
    assume "96 \<le> t"
    then show "evaluate_expression_Dicer msg expression g =
               (strip dice_expression @ '': '' @ roll_details @ ''='' @ str_int t @ '', ''
                  @ critical_failure, g')"
      using l assms(3) by (simp add: report_Dicer_def)
  }
next
  assume o: "strip_options_dicer expression = (options, lvl, e)"
  note l = evaluate_dicer_line [OF o assms(1,2), of msg]
  {
    assume "t = 1"
    then show "evaluate_expression_dicer msg expression g =
               (strip dice_expression @ '': '' @ roll_details @ ''='' @ str_int 1 @ '', ''
                  @ critical_success, g')"
      using l assms(3) by (simp add: report_dicer_def)
  }
  {
    assume "96 \<le> t"
    then show "evaluate_expression_dicer msg expression g =
               (strip dice_expression @ '': '' @ roll_details @ ''='' @ str_int t @ '', ''
                  @ critical_failure, g')"
      using l assms(3) by (simp add: report_dicer_def)
  }
qed

theorem d100_critical_override_witness:
  "fst (evaluate_expression_Dicer example_msg ''30/1d100 -g'' (\<lambda>i. 0))
      = ''1d100: 1=1, '' @ critical_success
   \<and> fst (evaluate_expression_Dicer example_msg ''30/1d100 -g'' (\<lambda>i. 98))
      = ''1d100: 99=99, '' @ critical_failure
   \<and> fst (evaluate_expression_dicer example_msg ''30/1d100 -g'' (\<lambda>i. 0))
      = ''1d100: 1=1, '' @ critical_success
   \<and> fst (evaluate_expression_dicer example_msg ''30/1d100 -g'' (\<lambda>i. 98))
      = ''1d100: 99=99, '' @ critical_failure"
proof -
  note s = example_gamble_Dicer(2) and c = example_gamble_Dicer(3)
  have r: "roll_dice (strip ''1d100'') (\<lambda>i. 0) = Inr ((1, ''1''), \<lambda>i. 0)"
    "roll_dice (strip ''1d100'') (\<lambda>i. 98) = Inr ((99, ''99''), \<lambda>i. 98)"
    by (simp_all add: example_gamble_Dicer(4) roll_example_1d100)
  show ?thesis
    using d100_critical_override [OF s r(1) c, of "''30/1d100 -g''" True "''n''" example_msg
        "no_options(''-g'' \<mapsto> True)" "''n''"]
      d100_critical_override [OF s r(2) c, of "''30/1d100 -g''" True "''n''" example_msg
        "no_options(''-g'' \<mapsto> True)" "''n''"]
    by (simp add: example_gamble_Dicer example_gamble_dicer)
qed

subsection \<open>Thresholds, difficulty and the gamble flag\<close>

lemma lvl_of_dicer:
  "strip_options_dicer expression = (options, lvl, e) \<Longrightarrow> lvl = ''h'' \<or> lvl = ''e'' \<or> lvl = ''n''"
  by (auto simp: strip_options_dicer_def Let_def split: prod.splits if_splits)

lemma lvl_of_Dicer:
  "strip_options_Dicer expression = (gamble, difficulty, e)
   \<Longrightarrow> difficulty = ''h'' \<or> difficulty = ''e'' \<or> difficulty = ''n''"
  by (auto simp: strip_options_Dicer_def Let_def split: if_splits)

lemma flags_Dicer:
  assumes "strip_options_Dicer expression = (gamble, lvl, e)"
    and "e1 = (if contains ''-g'' expression then replace '' -g'' [] expression else expression)"
  shows "gamble = contains ''-g'' expression
       \<and> lvl = (if contains ''-h'' e1 then ''h'' else if contains ''-e'' e1 then ''e'' else ''n'')"
  using assms by (auto simp: strip_options_Dicer_def Let_def split: if_splits)

lemma flags_dicer:
  assumes "strip_options_dicer expression = (options, lvl, e)"
    and "e1 = (if contains ''-g'' expression then strip (replace ''-g'' [] expression)
               else expression)"
  shows "(options ''-g'' = Some True) = contains ''-g'' expression
       \<and> lvl = (if contains ''-h'' e1 then ''h'' else if contains ''-e'' e1 then ''e'' else ''n'')"
  using assms
  by (auto simp: strip_options_dicer_def scan_options_def Let_def split: if_splits prod.splits)

lemma lvl_map_simps:
  "lvl_map ''h'' = Some hard_str" "lvl_map ''e'' = Some extreme_str" "lvl_map ''n'' = Some []"
  by (simp_all add: lvl_map_def)

lemma example_hard:
  "strip_options_Dicer ''41/1d6+20 -h -g'' = (True, ''h'', ''41/1d6+20'')"
  "split_target ''41/1d6+20'' = Inr (Some 41, ''1d6+20'')"
  "\<not> contains ''1d100'' ''1d6+20''"
  "strip ''1d6+20'' = ''1d6+20''"
  "match_dice ''1d6+20'' = Some (''1'', ''6'', Some ''+20'')"
  "digits_value ''6'' = 6" "signed_value ''+20'' = 20"
  "str_int 20 = ''20''" "str_int 21 = ''21''"
  "join ''+'' (map str_int (draws 1 6 (\<lambda>i. 0))) = ''1''"
  "sum_list (draws 1 6 (\<lambda>i. 0)) = 1"
  "(41::int) div 2 = 20"
  by code_simp+

lemma example_hard_flags:
  "contains ''-g'' ''41/1d6+20 -h -g''"
  "strip (replace ''-g'' [] ''41/1d6+20 -h -g'') = ''41/1d6+20 -h''"
  "contains ''-h'' ''41/1d6+20 -h''"
  "strip (replace ''-h'' [] ''41/1d6+20 -h'') = ''41/1d6+20''"
  "\<not> contains ''-e'' ''41/1d6+20''"
  by code_simp+

lemma example_hard_dicer:
  "strip_options_dicer ''41/1d6+20 -h -g''
     = (no_options(''-g'' \<mapsto> True, ''-h'' \<mapsto> True), ''h'', ''41/1d6+20'')"
  by (simp add: strip_options_dicer_def scan_options_def no_options_def example_hard_flags)

lemma roll_example_hard:
  "roll_dice (strip ''1d6+20'') (\<lambda>i. 0) = Inr ((21, ''1+20''), \<lambda>i. 0)"
  using roll_dice_ok [OF example_hard(5), of "\<lambda>i. 0"] example_hard(10,11)
  by (simp add: example_hard(4,6,7) some_values)

text \<open>
  Claim C4. Let the expression, after the removal of the flags, split into an integer
  target and a dice text, and let the roll return a total that does not hit the critical
  outcomes of \<^verbatim>\<open>1d100\<close>. Then the threshold is the target divided by 2 (rounded down) for
  the difficulty \<^verbatim>\<open>h\<close>, by 5 for \<^verbatim>\<open>e\<close>, and the target itself otherwise; \<^verbatim>\<open>check_success\<close>
  succeeds exactly when the total is at most the threshold; on success both files report
  the same line whether or not the gamble flag was given; on failure the gamble flag
  replaces the failure phrase by the forced-critical-failure phrase and changes nothing
  else. The difficulty is \<^verbatim>\<open>h\<close> when the text (after the removal of the gamble flag)
  contains \<^verbatim>\<open>-h\<close>, else \<^verbatim>\<open>e\<close> when it contains \<^verbatim>\<open>-e\<close>, else normal; the gamble flag is set
  when the expression contains \<^verbatim>\<open>-g\<close>.
\<close>

theorem threshold_check:
  assumes "split_target e = Inr (Some target, dice_expression)"
    and "roll_dice (strip dice_expression) g = Inr ((t, roll_details), g')"
    and "\<not> (contains ''1d100'' dice_expression \<and> (t = 1 \<or> 96 \<le> t))"
    and "threshold = (if lvl = ''h'' then target div 2
                      else if lvl = ''e'' then target div 5 else target)"
    and "qualifier = (if lvl = ''h'' then hard_str else if lvl = ''e'' then extreme_str else [])"
  shows "check_success target t lvl = (t \<le> threshold, threshold)
       \<and> (strip_options_Dicer expression = (gamble, lvl, e) \<longrightarrow>
            evaluate_expression_Dicer msg expression g =
              (strip dice_expression @ '': '' @ roll_details @ ''='' @ str_int t @ '', '' @
                 (if t \<le> threshold
                  then str_int t @ ''<='' @ str_int threshold @ '', '' @ qualifier @ check_passed
                  else str_int t @ ''>'' @ str_int threshold @ '', '' @ qualifier @
                         (if gamble then gamble_failed else check_failed)), g'))
       \<and> (strip_options_dicer expression = (options, lvl, e) \<longrightarrow>
            evaluate_expression_dicer msg expression g =
              (strip dice_expression @ '': '' @ roll_details @ ''='' @ str_int t @ '', '' @
                 (if t \<le> threshold
                  then str_int t @ ''<='' @ str_int threshold @ '', '' @ qualifier @ check_passed
                  else str_int t @ ''>'' @ str_int threshold @ '', '' @ qualifier @
                         (if options ''-g'' = Some True then gamble_failed else check_failed)),
               g'))
       \<and> (strip_options_Dicer expression = (gamble, lvl, e) \<longrightarrow>
            gamble = contains ''-g'' expression
            \<and> lvl = (let e1 = (if contains ''-g'' expression
                                then replace '' -g'' [] expression else expression)
                      in if contains ''-h'' e1 then ''h''
                         else if contains ''-e'' e1 then ''e'' else ''n''))
       \<and> (strip_options_dicer expression = (options, lvl, e) \<longrightarrow>
            (options ''-g'' = Some True) = contains ''-g'' expression
            \<and> lvl = (let e1 = (if contains ''-g'' expression
                                then strip (replace ''-g'' [] expression) else expression)
                      in if contains ''-h'' e1 then ''h''
                         else if contains ''-e'' e1 then ''e'' else ''n''))"
proof -
  have main: "check_success target t lvl = (t \<le> threshold, threshold)
       \<and> (strip_options_Dicer expression = (gamble, lvl, e) \<longrightarrow>
            evaluate_expression_Dicer msg expression g =
              (strip dice_expression @ '': '' @ roll_details @ ''='' @ str_int t @ '', '' @
                 (if t \<le> threshold
                  then str_int t @ ''<='' @ str_int threshold @ '', '' @ qualifier @ check_passed
                  else str_int t @ ''>'' @ str_int threshold @ '', '' @ qualifier @
                         (if gamble then gamble_failed else check_failed)), g'))
       \<and> (strip_options_dicer expression = (options, lvl, e) \<longrightarrow>
            evaluate_expression_dicer msg expression g =
              (strip dice_expression @ '': '' @ roll_details @ ''='' @ str_int t @ '', '' @
                 (if t \<le> threshold
                  then str_int t @ ''<='' @ str_int threshold @ '', '' @ qualifier @ check_passed
                  else str_int t @ ''>'' @ str_int threshold @ '', '' @ qualifier @
                         (if options ''-g'' = Some True then gamble_failed else check_failed)),
               g'))"
  proof (intro conjI impI)
  show c: "check_success target t lvl = (t \<le> threshold, threshold)"
    by (simp add: check_success_def Let_def assms(4))
  {
    assume o: "strip_options_Dicer expression = (gamble, lvl, e)"
    have "evaluate_expression_Dicer msg expression g =
            (report_Dicer gamble lvl (Some target) dice_expression t roll_details, g')"
      by (rule evaluate_Dicer_line [OF o assms(1,2)])
    then show "evaluate_expression_Dicer msg expression g =
              (strip dice_expression @ '': '' @ roll_details @ ''='' @ str_int t @ '', '' @
                 (if t \<le> threshold
                  then str_int t @ ''<='' @ str_int threshold @ '', '' @ qualifier @ check_passed
                  else str_int t @ ''>'' @ str_int threshold @ '', '' @ qualifier @
                         (if gamble then gamble_failed else check_failed)), g')"
      using assms(3) by (auto simp: report_Dicer_def c assms(5))
  }
  {
    assume o: "strip_options_dicer expression = (options, lvl, e)"
    have q: "the (lvl_map lvl) = qualifier"
      using lvl_of_dicer [OF o] by (auto simp: lvl_map_simps assms(5))
    have "evaluate_expression_dicer msg expression g =
            (report_dicer options lvl (Some target) dice_expression t roll_details, g')"
      by (rule evaluate_dicer_line [OF o assms(1,2)])
    then show "evaluate_expression_dicer msg expression g =
              (strip dice_expression @ '': '' @ roll_details @ ''='' @ str_int t @ '', '' @
                 (if t \<le> threshold
                  then str_int t @ ''<='' @ str_int threshold @ '', '' @ qualifier @ check_passed
                  else str_int t @ ''>'' @ str_int threshold @ '', '' @ qualifier @
                         (if options ''-g'' = Some True then gamble_failed else check_failed)),
               g')"
      using assms(3) by (auto simp: report_dicer_def c q)
  }
  qed
  have fD: "strip_options_Dicer expression = (gamble, lvl, e) \<longrightarrow>
            gamble = contains ''-g'' expression
            \<and> lvl = (let e1 = (if contains ''-g'' expression
                                then replace '' -g'' [] expression else expression)
                      in if contains ''-h'' e1 then ''h''
                         else if contains ''-e'' e1 then ''e'' else ''n'')"
    using flags_Dicer [of expression gamble lvl e] by (simp add: Let_def)
  have fd: "strip_options_dicer expression = (options, lvl, e) \<longrightarrow>
            (options ''-g'' = Some True) = contains ''-g'' expression
            \<and> lvl = (let e1 = (if contains ''-g'' expression
                                then strip (replace ''-g'' [] expression) else expression)
                      in if contains ''-h'' e1 then ''h''
                         else if contains ''-e'' e1 then ''e'' else ''n'')"
    using flags_dicer [of expression options lvl e] by (simp add: Let_def)
  show ?thesis
    using main fD fd by blast
qed

theorem threshold_check_witness:
  "check_success 41 21 ''h'' = (False, 20)
   \<and> fst (evaluate_expression_Dicer example_msg ''41/1d6+20 -h -g'' (\<lambda>i. 0))
       = ''1d6+20: 1+20=21, 21>20, '' @ hard_str @ gamble_failed
   \<and> fst (evaluate_expression_dicer example_msg ''41/1d6+20 -h -g'' (\<lambda>i. 0))
       = ''1d6+20: 1+20=21, 21>20, '' @ hard_str @ gamble_failed"
  using threshold_check [OF example_hard(2) roll_example_hard, of 20 "''h''" hard_str
      "''41/1d6+20 -h -g''" True example_msg "no_options(''-g'' \<mapsto> True, ''-h'' \<mapsto> True)"]
  by (simp add: example_hard example_hard_dicer)

subsection \<open>The target segment and the character \<^verbatim>\<open>/\<close>\<close>

lemma split_not_Nil: "split sep s \<noteq> []"
  by (induction s) (auto split: list.splits)

lemma length_split: "length (split sep s) = Suc (count_list s sep)"
proof (induction s)
  case Nil
  then show ?case by simp
next
  case (Cons c cs)
  then show ?case
    using split_not_Nil [of sep cs] by (cases "split sep cs") auto
qed

lemma split_one:
  "count_list s sep = 1 \<Longrightarrow>
     split sep s = [takeWhile (\<lambda>c. c \<noteq> sep) s, tl (dropWhile (\<lambda>c. c \<noteq> sep) s)]"
proof (induction s)
  case Nil
  then show ?case by simp
next
  case (Cons c cs)
  show ?case
  proof (cases "c = sep")
    case True
    then have "count_list cs sep = 0" using Cons.prems by simp
    then have "length (split sep cs) = 1" by (simp add: length_split)
    moreover have "concat (split sep cs) = cs"
      using \<open>count_list cs sep = 0\<close>
    proof (induction cs)
      case Nil
      then show ?case by simp
    next
      case (Cons a as)
      then show ?case
        using split_not_Nil [of sep as] by (cases "split sep as") (auto split: if_splits)
    qed
    ultimately have "split sep cs = [cs]"
      by (cases "split sep cs") auto
    then show ?thesis using True by simp
  next
    case False
    then have "count_list cs sep = 1" using Cons.prems by simp
    then show ?thesis using False Cons.IH by simp
  qed
qed

lemma split_target_many:
  assumes "2 \<le> count_list e CHR ''/''"
  shows "split_target e = Inl (Lib TooManyValues)"
proof -
  have m: "CHR ''/'' \<in> set e"
    using assms count_list_0_iff [of e "CHR ''/''"] by auto
  have "3 \<le> length (split CHR ''/'' e)"
    using assms by (simp add: length_split)
  then obtain a b c rest where "split CHR ''/'' e = a # b # c # rest"
    by (auto simp: numeral_3_eq_3 Suc_le_length_iff)
  then show ?thesis
    using m by (simp add: split_target_def)
qed

lemma split_target_one:
  assumes "count_list e CHR ''/'' = 1"
  shows "split_target e =
           (case py_int (takeWhile (\<lambda>c. c \<noteq> CHR ''/'') e) of
              None \<Rightarrow> Inl (Lib (InvalidLiteral (takeWhile (\<lambda>c. c \<noteq> CHR ''/'') e)))
            | Some t \<Rightarrow> Inr (Some t, tl (dropWhile (\<lambda>c. c \<noteq> CHR ''/'') e)))"
proof -
  have m: "CHR ''/'' \<in> set e"
    using assms count_list_0_iff [of e "CHR ''/''"] by auto
  show ?thesis
    using m by (simp add: split_target_def split_one [OF assms])
qed

lemma example_slashes:
  "strip_options_Dicer ''20/1d6/2'' = (False, ''n'', ''20/1d6/2'')"
  "\<not> contains ''-g'' ''20/1d6/2''" "\<not> contains ''-h'' ''20/1d6/2''"
  "\<not> contains ''-e'' ''20/1d6/2''"
  "count_list ''20/1d6/2'' CHR ''/'' = 2"
  "count_list ''20/1d6'' CHR ''/'' = 1"
  "py_int (takeWhile (\<lambda>c. c \<noteq> CHR ''/'') ''20/1d6'') = Some 20"
  "tl (dropWhile (\<lambda>c. c \<noteq> CHR ''/'') ''20/1d6'') = ''1d6''"
  by code_simp+

text \<open>
  Claim C5, as stated, at \<^verbatim>\<open>20/1d6/2\<close>: the part after the first \<^verbatim>\<open>/\<close> is \<^verbatim>\<open>1d6/2\<close>, which
  \<^verbatim>\<open>roll_dice\<close> would accept; but neither file reaches \<^verbatim>\<open>roll_dice\<close>: the split has three
  parts, the unpacking into two names raises, and the result is the error prefix with
  that exception's message, with the random source untouched.
\<close>

theorem two_slashes_counterexample:
  "map_sum id fst (roll_dice ''1d6/2'' (fixed_draws 2)) = Inr (3, ''3'')
   \<and> split_target ''20/1d6/2'' = Inl (Lib TooManyValues)
   \<and> fst (evaluate_expression_Dicer example_msg ''20/1d6/2'' (fixed_draws 2))
       = err_prefix @ ''too many values to unpack (expected 2)''
   \<and> fst (evaluate_expression_dicer example_msg ''20/1d6/2'' (fixed_draws 2))
       = err_prefix @ ''too many values to unpack (expected 2)''"
  by code_simp

text \<open>
  Claim C5, amended. After the flags are removed, a text with exactly one \<^verbatim>\<open>/\<close> is split
  there: the left side is parsed as the integer target (and a left side that is no integer
  raises), the right side is the dice expression. A text with two or more \<^verbatim>\<open>/\<close> is split
  at every one of them, the unpacking into target and dice expression raises, and
  \<^verbatim>\<open>evaluate_expression\<close> returns, in both files, the error prefix followed by that
  exception's message, without rolling.
\<close>

theorem split_on_slash:
  "(count_list e CHR ''/'' = 1 \<longrightarrow>
      split_target e =
        (case py_int (takeWhile (\<lambda>c. c \<noteq> CHR ''/'') e) of
           None \<Rightarrow> Inl (Lib (InvalidLiteral (takeWhile (\<lambda>c. c \<noteq> CHR ''/'') e)))
         | Some t \<Rightarrow> Inr (Some t, tl (dropWhile (\<lambda>c. c \<noteq> CHR ''/'') e))))
   \<and> (2 \<le> count_list e CHR ''/'' \<longrightarrow>
        split_target e = Inl (Lib TooManyValues)
        \<and> (strip_options_Dicer expression = (gamble, difficulty, e) \<longrightarrow>
             evaluate_expression_Dicer msg expression g = (err_prefix @ msg TooManyValues, g))
        \<and> (strip_options_dicer expression = (options, lvl, e) \<longrightarrow>
             evaluate_expression_dicer msg expression g = (err_prefix @ msg TooManyValues, g)))"
proof (intro conjI impI)
  assume "count_list e CHR ''/'' = 1"
  then show "split_target e =
        (case py_int (takeWhile (\<lambda>c. c \<noteq> CHR ''/'') e) of
           None \<Rightarrow> Inl (Lib (InvalidLiteral (takeWhile (\<lambda>c. c \<noteq> CHR ''/'') e)))
         | Some t \<Rightarrow> Inr (Some t, tl (dropWhile (\<lambda>c. c \<noteq> CHR ''/'') e)))"
    by (rule split_target_one)
next
  assume "2 \<le> count_list e CHR ''/''"
  then show s: "split_target e = Inl (Lib TooManyValues)"
    by (rule split_target_many)
  {
    assume "strip_options_Dicer expression = (gamble, difficulty, e)"
    from evaluate_Dicer_split_error [OF this s, of msg g]
    show "evaluate_expression_Dicer msg expression g = (err_prefix @ msg TooManyValues, g)"
      by simp
  }
  {
    assume "strip_options_dicer expression = (options, lvl, e)"
    from evaluate_dicer_split_error [OF this s, of msg g]
    show "evaluate_expression_dicer msg expression g = (err_prefix @ msg TooManyValues, g)"
      by simp
  }
qed

theorem split_on_slash_witness:
  "count_list ''20/1d6'' CHR ''/'' = 1
   \<and> split_target ''20/1d6'' = Inr (Some 20, ''1d6'')
   \<and> 2 \<le> count_list ''20/1d6/2'' CHR ''/''
   \<and> evaluate_expression_Dicer example_msg ''20/1d6/2'' (\<lambda>i. 2)
       = (err_prefix @ example_msg TooManyValues, \<lambda>i. 2)
   \<and> evaluate_expression_dicer example_msg ''20/1d6/2'' (\<lambda>i. 2)
       = (err_prefix @ example_msg TooManyValues, \<lambda>i. 2)"
proof -
  have d: "strip_options_dicer ''20/1d6/2'' = (no_options, ''n'', ''20/1d6/2'')"
    by (rule strip_options_dicer_plain) (rule example_slashes)+
  show ?thesis
    using split_on_slash [of "''20/1d6''"]
      split_on_slash [of "''20/1d6/2''" "''20/1d6/2''" False "''n''" example_msg "\<lambda>i. 2"
        no_options "''n''"] example_slashes(7,8)
    by (simp add: example_slashes(1-6) d)
qed

subsection \<open>Repeated trials\<close>

lemma execute_fold:
  "fold (\<lambda>i (results, g).
           let (roll_result, g') = ev expression g
           in (results @ [trial_prefix i @ roll_result], g'))
        [0..<n] ([], g)
   = (map (trial_line ev expression g) [0..<n], after_trials ev expression n g)"
proof (induction n)
  case 0
  then show ?case by (simp add: after_trials_def)
next
  case (Suc n)
  then show ?case
    by (simp add: trial_line_def after_trials_def split: prod.splits)
qed

lemma execute_rolls_lines:
  "execute_rolls ev n expression g =
     (join [CHR 0x0A] (map (trial_line ev expression g) [0..<n]), after_trials ev expression n g)"
  unfolding execute_rolls_def execute_fold by simp







subsection \<open>The entry points never raise: failures become error strings\<close>

lemma match_dice_first:
  assumes "match_dice s = Some x"
  shows "s \<noteq> [] \<and> hd s \<in> set ''0123456789d''"
proof (cases s)
  case Nil
  then show ?thesis using assms by (simp add: match_dice_def)
next
  case (Cons c cs)
  show ?thesis
  proof (cases "is_digit c")
    case True
    then show ?thesis using Cons by (auto simp: is_digit_def)
  next
    case False
    then have "dropWhile is_digit s = s" using Cons by simp
    then have "c = CHR ''d''"
      using assms Cons by (auto simp: match_dice_def Let_def split: if_splits)
    then show ?thesis using Cons by simp
  qed
qed

lemma roll_dice_matched:
  "roll_dice s g = Inr r \<Longrightarrow> \<exists>x. match_dice s = Some x"
  by (cases "match_dice s") (auto simp: roll_dice_def)

lemma roll_dice_unmatched:
  "match_dice s = None \<Longrightarrow> roll_dice s g = Inl (ValueError invalid_expression)"
  by (simp add: roll_dice_def)

lemma not_error_text:
  assumes "s \<noteq> []" and "hd s \<in> set ''0123456789d''"
  shows "\<not> prefix err_prefix (s @ rest)"
proof -
  obtain c cs where s: "s = c # cs" using assms(1) by (cases s) auto
  have "c \<noteq> CHR 0xE9" using assms(2) s by auto
  then show ?thesis by (simp add: s err_prefix_def)
qed

lemma report_Dicer_starts:
  "\<exists>rest. report_Dicer gamble difficulty target d t details = strip d @ rest"
  by (simp add: report_Dicer_def Let_def)

lemma report_dicer_starts:
  "\<exists>rest. report_dicer options lvl target d t details = strip d @ rest"
  by (simp add: report_dicer_def Let_def)

lemma body_Dicer_line:
  assumes "evaluate_body_Dicer expression g = Inr (line, g')"
  shows "\<not> prefix err_prefix line"
proof -
  obtain gamble difficulty e where o: "strip_options_Dicer expression = (gamble, difficulty, e)"
    by (cases "strip_options_Dicer expression") auto
  from assms o obtain target d where s: "split_target e = Inr (target, d)"
    by (cases "split_target e") (auto simp: evaluate_body_Dicer_def)
  from assms o s obtain t details where r: "roll_dice (strip d) g = Inr ((t, details), g')"
    and l: "line = report_Dicer gamble difficulty target d t details"
    by (cases "roll_dice (strip d) g") (auto simp: evaluate_body_Dicer_def)
  from roll_dice_matched [OF r] obtain x where "match_dice (strip d) = Some x" ..
  from match_dice_first [OF this] report_Dicer_starts [of gamble difficulty target d t details]
  show ?thesis using l not_error_text by auto
qed

lemma body_dicer_line:
  assumes "evaluate_body_dicer expression g = Inr (line, g')"
  shows "\<not> prefix err_prefix line"
proof -
  obtain options lvl e where o: "strip_options_dicer expression = (options, lvl, e)"
    by (cases "strip_options_dicer expression") auto
  from assms o obtain target d where s: "split_target e = Inr (target, d)"
    by (cases "split_target e") (auto simp: evaluate_body_dicer_def)
  from assms o s obtain t details where r: "roll_dice (strip d) g = Inr ((t, details), g')"
    and l: "line = report_dicer options lvl target d t details"
    by (cases "roll_dice (strip d) g") (auto simp: evaluate_body_dicer_def)
  from roll_dice_matched [OF r] obtain x where "match_dice (strip d) = Some x" ..
  from match_dice_first [OF this] report_dicer_starts [of options lvl target d t details]
  show ?thesis using l not_error_text by auto
qed

lemma quick_body_line:
  assumes "quick_body command g = Inr (line, g')"
  shows "\<not> prefix err_prefix line"
proof -
  from assms obtain rest where "line = ''1d'' @ rest"
    by (auto simp: quick_body_def Let_def split: option.splits sum.splits)
  then show ?thesis by (simp add: err_prefix_def)
qed

lemma join_lines_not_error:
  "\<not> prefix err_prefix (join [CHR 0x0A] (map (trial_line ev expression g) [0..<n]))"
proof (cases n)
  case 0
  then show ?thesis by (simp add: err_prefix_def)
next
  case (Suc k)
  have u: "[0..<Suc k] = 0 # [1..<Suc k]" by (simp add: upt_conv_Cons del: upt_Suc)
  have "\<exists>rest. join [CHR 0x0A] (map (trial_line ev expression g) [0..<Suc k])
                 = CHR 0xE7 # rest"
    unfolding u by (cases "[1..<Suc k]") (simp_all add: trial_line_def trial_prefix_def)
  then show ?thesis using Suc by (auto simp: err_prefix_def)
qed

lemma repeat_body_line:
  assumes "repeat_body ev command g = Inr (text, g')"
  shows "\<not> prefix err_prefix text"
  using assms join_lines_not_error [of ev]
  by (auto simp: repeat_body_def execute_rolls_lines split: option.splits)

lemma error_iff_Dicer:
  "prefix err_prefix (fst (evaluate_expression_Dicer msg expression g))
     \<longleftrightarrow> (\<exists>e. evaluate_body_Dicer expression g = Inl e)"
  using body_Dicer_line [of expression g]
  by (cases "evaluate_body_Dicer expression g") (auto simp: evaluate_expression_Dicer_def)

lemma error_iff_dicer:
  "prefix err_prefix (fst (evaluate_expression_dicer msg expression g))
     \<longleftrightarrow> (\<exists>e. evaluate_body_dicer expression g = Inl e)"
  using body_dicer_line [of expression g]
  by (cases "evaluate_body_dicer expression g") (auto simp: evaluate_expression_dicer_def)

lemma error_iff_quick:
  "prefix err_prefix (fst (quick_roll msg command g)) \<longleftrightarrow> (\<exists>e. quick_body command g = Inl e)"
  using quick_body_line [of command g]
  by (cases "quick_body command g") (auto simp: quick_roll_def)

lemma error_iff_repeat:
  "prefix err_prefix (fst (repeat_roll ev msg command g))
     \<longleftrightarrow> (\<exists>e. repeat_body ev command g = Inl e)"
  using repeat_body_line [of ev command g]
  by (cases "repeat_body ev command g") (auto simp: repeat_roll_def)

lemma malformed_plain:
  "\<not> contains ''-g'' ''abc''" "\<not> contains ''-h'' ''abc''" "\<not> contains ''-e'' ''abc''"
  "split_target ''abc'' = Inr (None, ''abc'')" "match_dice (strip ''abc'') = None"
  "\<not> contains ''-g'' ''d''" "\<not> contains ''-h'' ''d''" "\<not> contains ''-e'' ''d''"
  "split_target ''d'' = Inr (None, ''d'')" "match_dice (strip ''d'') = None"
  "\<not> contains ''-g'' ''.m -x foo''" "\<not> contains ''-h'' ''.m -x foo''"
  "\<not> contains ''-e'' ''.m -x foo''"
  "split_target ''.m -x foo'' = Inr (None, ''.m -x foo'')"
  "match_dice (strip ''.m -x foo'') = None"
  "\<not> contains ''-g'' ''5/''" "\<not> contains ''-h'' ''5/''" "\<not> contains ''-e'' ''5/''"
  "split_target ''5/'' = Inr (Some 5, '''')" "match_dice (strip '''') = None"
  by code_simp+

lemma malformed_commands:
  "match_quick ''abc'' = None" "match_m ''abc'' = None" "match_dt ''abc'' = None"
  "match_quick ''d'' = None" "match_m ''d'' = None" "match_dt ''d'' = None"
  "match_quick ''.m -x foo'' = None" "match_m ''.m -x foo'' = None"
  "match_dt ''.m -x foo'' = None"
  "match_quick ''5/'' = None" "match_m ''5/'' = None" "match_dt ''5/'' = None"
  by code_simp+

lemma malformed_evaluate:
  assumes "m \<in> set [''abc'', ''d'', ''.m -x foo'', ''5/'']"
  shows "evaluate_expression_Dicer msg m g = (err_prefix @ invalid_expression, g)"
    and "evaluate_expression_dicer msg m g = (err_prefix @ invalid_expression, g)"
  using assms
  by (auto simp: evaluate_expression_Dicer_def evaluate_body_Dicer_def
      evaluate_expression_dicer_def evaluate_body_dicer_def
      strip_options_Dicer_plain strip_options_dicer_plain malformed_plain roll_dice_unmatched)

lemma malformed_command:
  assumes "m \<in> set [''abc'', ''d'', ''.m -x foo'', ''5/'']"
  shows "quick_roll msg m g = (err_prefix @ invalid_expression, g)"
    and "repeat_roll ev msg m g = (err_prefix @ invalid_repeat, g)"
  using assms
  by (auto simp: quick_roll_def quick_body_def repeat_roll_def repeat_body_def
      malformed_commands)

lemma example_bad_target:
  "strip_options_Dicer ''x/1d6'' = (False, ''n'', ''x/1d6'')"
  "\<not> contains ''-g'' ''x/1d6''" "\<not> contains ''-h'' ''x/1d6''" "\<not> contains ''-e'' ''x/1d6''"
  "CHR ''/'' \<in> set ''x/1d6''" "split CHR ''/'' ''x/1d6'' = [''x'', ''1d6'']"
  "py_int ''x'' = None"
  "example_msg (InvalidLiteral ''x'') = ''invalid literal for int() with base 10''"
  by code_simp+

text \<open>
  Claim C2. In both files \<^verbatim>\<open>evaluate_expression\<close>, \<^verbatim>\<open>quick_roll\<close> and \<^verbatim>\<open>repeat_roll\<close> return a
  string for every input: whenever the body of the \<^verbatim>\<open>try\<close> raises an exception, the
  function returns the error prefix followed by the exception's message and leaves the
  random source as it was, and otherwise it returns what the body returns; the returned
  string begins with the error prefix exactly when the body raised. In particular a dice
  text that does not match the grammar and a target that is no integer give such a
  string, and so do the inputs \<^verbatim>\<open>abc\<close>, \<^verbatim>\<open>d\<close>, \<^verbatim>\<open>.m -x foo\<close> and \<^verbatim>\<open>5/\<close> at each of the entry
  points.
\<close>

theorem entry_points_total:
  "(prefix err_prefix (fst (evaluate_expression_Dicer msg expression g))
      \<longleftrightarrow> (\<exists>err. evaluate_body_Dicer expression g = Inl err))
   \<and> (prefix err_prefix (fst (evaluate_expression_dicer msg expression g))
      \<longleftrightarrow> (\<exists>err. evaluate_body_dicer expression g = Inl err))
   \<and> (prefix err_prefix (fst (quick_roll msg command g))
      \<longleftrightarrow> (\<exists>err. quick_body command g = Inl err))
   \<and> (prefix err_prefix (fst (repeat_roll ev msg command g))
      \<longleftrightarrow> (\<exists>err. repeat_body ev command g = Inl err))
   \<and> (\<forall>err. evaluate_body_Dicer expression g = Inl err \<longrightarrow>
         evaluate_expression_Dicer msg expression g = (err_prefix @ str_error msg err, g))
   \<and> (\<forall>err. evaluate_body_dicer expression g = Inl err \<longrightarrow>
         evaluate_expression_dicer msg expression g = (err_prefix @ str_error msg err, g))
   \<and> (\<forall>err. quick_body command g = Inl err \<longrightarrow>
         quick_roll msg command g = (err_prefix @ str_error msg err, g))
   \<and> (\<forall>err. repeat_body ev command g = Inl err \<longrightarrow>
         repeat_roll ev msg command g = (err_prefix @ str_error msg err, g))
   \<and> (split_target e = Inr (target, d) \<and> match_dice (strip d) = None \<longrightarrow>
        (strip_options_Dicer expression = (gamble, difficulty, e) \<longrightarrow>
           evaluate_expression_Dicer msg expression g = (err_prefix @ invalid_expression, g))
        \<and> (strip_options_dicer expression = (options, lvl, e) \<longrightarrow>
           evaluate_expression_dicer msg expression g = (err_prefix @ invalid_expression, g)))
   \<and> (CHR ''/'' \<in> set e \<and> split CHR ''/'' e = [tx, d] \<and> py_int tx = None \<longrightarrow>
        (strip_options_Dicer expression = (gamble, difficulty, e) \<longrightarrow>
           evaluate_expression_Dicer msg expression g
             = (err_prefix @ msg (InvalidLiteral tx), g))
        \<and> (strip_options_dicer expression = (options, lvl, e) \<longrightarrow>
           evaluate_expression_dicer msg expression g
             = (err_prefix @ msg (InvalidLiteral tx), g)))
   \<and> (m \<in> set [''abc'', ''d'', ''.m -x foo'', ''5/''] \<longrightarrow>
        evaluate_expression_Dicer msg m g = (err_prefix @ invalid_expression, g)
        \<and> evaluate_expression_dicer msg m g = (err_prefix @ invalid_expression, g)
        \<and> quick_roll msg m g = (err_prefix @ invalid_expression, g)
        \<and> repeat_roll ev msg m g = (err_prefix @ invalid_repeat, g))"
proof -
  have a: "\<forall>err. evaluate_body_Dicer expression g = Inl err \<longrightarrow>
         evaluate_expression_Dicer msg expression g = (err_prefix @ str_error msg err, g)"
    by (simp add: evaluate_expression_Dicer_def)
  have b: "\<forall>err. evaluate_body_dicer expression g = Inl err \<longrightarrow>
         evaluate_expression_dicer msg expression g = (err_prefix @ str_error msg err, g)"
    by (simp add: evaluate_expression_dicer_def)
  have c: "\<forall>err. quick_body command g = Inl err \<longrightarrow>
         quick_roll msg command g = (err_prefix @ str_error msg err, g)"
    by (simp add: quick_roll_def)
  have d: "\<forall>err. repeat_body ev command g = Inl err \<longrightarrow>
         repeat_roll ev msg command g = (err_prefix @ str_error msg err, g)"
    by (simp add: repeat_roll_def)
  have f: "split_target e = Inr (target, d) \<and> match_dice (strip d) = None \<longrightarrow>
        (strip_options_Dicer expression = (gamble, difficulty, e) \<longrightarrow>
           evaluate_expression_Dicer msg expression g = (err_prefix @ invalid_expression, g))
        \<and> (strip_options_dicer expression = (options, lvl, e) \<longrightarrow>
           evaluate_expression_dicer msg expression g = (err_prefix @ invalid_expression, g))"
    by (simp add: evaluate_expression_Dicer_def evaluate_body_Dicer_def
        evaluate_expression_dicer_def evaluate_body_dicer_def roll_dice_unmatched)
  have h: "CHR ''/'' \<in> set e \<and> split CHR ''/'' e = [tx, d] \<and> py_int tx = None \<longrightarrow>
        (strip_options_Dicer expression = (gamble, difficulty, e) \<longrightarrow>
           evaluate_expression_Dicer msg expression g
             = (err_prefix @ msg (InvalidLiteral tx), g))
        \<and> (strip_options_dicer expression = (options, lvl, e) \<longrightarrow>
           evaluate_expression_dicer msg expression g
             = (err_prefix @ msg (InvalidLiteral tx), g))"
    by (simp add: evaluate_expression_Dicer_def evaluate_body_Dicer_def
        evaluate_expression_dicer_def evaluate_body_dicer_def split_target_def)
  have k: "m \<in> set [''abc'', ''d'', ''.m -x foo'', ''5/''] \<longrightarrow>
        evaluate_expression_Dicer msg m g = (err_prefix @ invalid_expression, g)
        \<and> evaluate_expression_dicer msg m g = (err_prefix @ invalid_expression, g)
        \<and> quick_roll msg m g = (err_prefix @ invalid_expression, g)
        \<and> repeat_roll ev msg m g = (err_prefix @ invalid_repeat, g)"
    using malformed_evaluate [of m] malformed_command [of m] by blast
  show ?thesis
    using error_iff_Dicer [of msg expression g] error_iff_dicer [of msg expression g]
      error_iff_quick [of msg command g] error_iff_repeat [of ev msg command g]
      a b c d f h k
    by blast
qed

theorem entry_points_total_witness:
  "evaluate_body_Dicer ''5/'' (\<lambda>i. 0) = Inl (ValueError invalid_expression)
   \<and> evaluate_expression_Dicer example_msg ''5/'' (\<lambda>i. 0)
       = (err_prefix @ invalid_expression, \<lambda>i. 0)
   \<and> evaluate_body_dicer ''5/'' (\<lambda>i. 0) = Inl (ValueError invalid_expression)
   \<and> evaluate_expression_dicer example_msg ''5/'' (\<lambda>i. 0)
       = (err_prefix @ invalid_expression, \<lambda>i. 0)
   \<and> quick_body ''abc'' (\<lambda>i. 0) = Inl (ValueError invalid_expression)
   \<and> quick_roll example_msg ''abc'' (\<lambda>i. 0) = (err_prefix @ invalid_expression, \<lambda>i. 0)
   \<and> repeat_body (evaluate_expression_Dicer example_msg) ''.m -x foo'' (\<lambda>i. 0)
       = Inl (ValueError invalid_repeat)
   \<and> repeat_roll (evaluate_expression_Dicer example_msg) example_msg ''.m -x foo'' (\<lambda>i. 0)
       = (err_prefix @ invalid_repeat, \<lambda>i. 0)
   \<and> prefix err_prefix (fst (evaluate_expression_Dicer example_msg ''5/'' (\<lambda>i. 0)))
   \<and> evaluate_expression_Dicer example_msg ''x/1d6'' (\<lambda>i. 0)
       = (err_prefix @ ''invalid literal for int() with base 10'', \<lambda>i. 0)
   \<and> evaluate_expression_dicer example_msg ''x/1d6'' (\<lambda>i. 0)
       = (err_prefix @ ''invalid literal for int() with base 10'', \<lambda>i. 0)
   \<and> evaluate_expression_Dicer example_msg ''d'' (\<lambda>i. 0)
       = (err_prefix @ invalid_expression, \<lambda>i. 0)"
proof -
  let ?D = "evaluate_expression_Dicer example_msg"
  have p: "strip_options_Dicer ''5/'' = (False, ''n'', ''5/'')"
    "strip_options_dicer ''5/'' = (no_options, ''n'', ''5/'')"
    "strip_options_dicer ''x/1d6'' = (no_options, ''n'', ''x/1d6'')"
    by (simp_all add: strip_options_Dicer_plain strip_options_dicer_plain malformed_plain
        example_bad_target)
  have bD: "evaluate_body_Dicer ''5/'' (\<lambda>i. 0) = Inl (ValueError invalid_expression)"
    by (simp add: evaluate_body_Dicer_def p malformed_plain roll_dice_unmatched)
  have bd: "evaluate_body_dicer ''5/'' (\<lambda>i. 0) = Inl (ValueError invalid_expression)"
    by (simp add: evaluate_body_dicer_def p malformed_plain roll_dice_unmatched)
  have bq: "quick_body ''abc'' (\<lambda>i. 0) = Inl (ValueError invalid_expression)"
    by (simp add: quick_body_def malformed_commands)
  have br: "repeat_body ?D ''.m -x foo'' (\<lambda>i. 0) = Inl (ValueError invalid_repeat)"
    by (simp add: repeat_body_def malformed_commands)
  note t1 = entry_points_total [where msg = example_msg and expression = "''5/''"
      and g = "\<lambda>i. 0" and command = "''abc''" and ev = ?D and m = "''d''"]
  note t3 = entry_points_total [where msg = example_msg and g = "\<lambda>i. 0"
      and command = "''.m -x foo''" and ev = ?D]
  note t2 = entry_points_total [where msg = example_msg and expression = "''x/1d6''"
      and g = "\<lambda>i. 0" and e = "''x/1d6''" and tx = "''x''" and d = "''1d6''"
      and gamble = False and difficulty = "''n''" and options = no_options and lvl = "''n''"]
  have 1: "?D ''5/'' (\<lambda>i. 0) = (err_prefix @ invalid_expression, \<lambda>i. 0)"
    using t1 bD by simp
  have 2: "evaluate_expression_dicer example_msg ''5/'' (\<lambda>i. 0)
             = (err_prefix @ invalid_expression, \<lambda>i. 0)"
    using t1 bd by simp
  have 3: "quick_roll example_msg ''abc'' (\<lambda>i. 0) = (err_prefix @ invalid_expression, \<lambda>i. 0)"
    using t1 bq by simp
  have 4: "repeat_roll ?D example_msg ''.m -x foo'' (\<lambda>i. 0)
             = (err_prefix @ invalid_repeat, \<lambda>i. 0)"
    using t3 br by simp
  have 5: "prefix err_prefix (fst (?D ''5/'' (\<lambda>i. 0)))"
    using t1 bD by blast
  have 6: "?D ''x/1d6'' (\<lambda>i. 0) = (err_prefix @ example_msg (InvalidLiteral ''x''), \<lambda>i. 0)
     \<and> evaluate_expression_dicer example_msg ''x/1d6'' (\<lambda>i. 0)
         = (err_prefix @ example_msg (InvalidLiteral ''x''), \<lambda>i. 0)"
    using t2 example_bad_target(1,5,6,7) p(3) by blast
  have 7: "?D ''d'' (\<lambda>i. 0) = (err_prefix @ invalid_expression, \<lambda>i. 0)"
    using t1 by simp
  show ?thesis
    using bD bd bq br 1 2 3 4 5 6 7 unfolding example_bad_target(8) by blast
qed

subsection \<open>Commands that the patterns accept or reject\<close>







subsection \<open>The two files compared\<close>

lemma contains_two_append:
  "contains [a, b] (xs @ ys) \<longleftrightarrow>
     contains [a, b] xs \<or> contains [a, b] ys \<or> (xs \<noteq> [] \<and> last xs = a \<and> ys \<noteq> [] \<and> hd ys = b)"
proof -
  have s1: "suffix [a] xs \<longleftrightarrow> xs \<noteq> [] \<and> last xs = a"
    by (cases xs rule: rev_cases) (auto simp: suffix_def)
  have s2: "prefix [b] ys \<longleftrightarrow> ys \<noteq> [] \<and> hd ys = b"
    by (cases ys) auto
  have e: "(\<exists>xs1 xs2. [a, b] = xs1 @ xs2 \<and> suffix xs1 xs \<and> prefix xs2 ys)
        \<longleftrightarrow> (suffix [a, b] xs \<or> prefix [a, b] ys \<or> (suffix [a] xs \<and> prefix [b] ys))"
  proof
    assume "\<exists>xs1 xs2. [a, b] = xs1 @ xs2 \<and> suffix xs1 xs \<and> prefix xs2 ys"
    then obtain xs1 xs2 where h: "[a, b] = xs1 @ xs2" "suffix xs1 xs" "prefix xs2 ys"
      by blast
    from h(1) have "(xs1 = [] \<and> xs2 = [a, b]) \<or> (xs1 = [a] \<and> xs2 = [b])
                    \<or> (xs1 = [a, b] \<and> xs2 = [])"
      by (cases xs1; cases "tl xs1") (auto simp: Cons_eq_append_conv)
    then show "suffix [a, b] xs \<or> prefix [a, b] ys \<or> (suffix [a] xs \<and> prefix [b] ys)"
      using h(2,3) by auto
  next
    assume r: "suffix [a, b] xs \<or> prefix [a, b] ys \<or> (suffix [a] xs \<and> prefix [b] ys)"
    show "\<exists>xs1 xs2. [a, b] = xs1 @ xs2 \<and> suffix xs1 xs \<and> prefix xs2 ys"
    proof -
      {
        assume "suffix [a, b] xs"
        then have "[a, b] = [a, b] @ [] \<and> suffix [a, b] xs \<and> prefix [] ys" by simp
        then have ?thesis by blast
      }
      moreover {
        assume "prefix [a, b] ys"
        then have "[a, b] = [] @ [a, b] \<and> suffix [] xs \<and> prefix [a, b] ys" by simp
        then have ?thesis by blast
      }
      moreover {
        assume "suffix [a] xs \<and> prefix [b] ys"
        then have "[a, b] = [a] @ [b] \<and> suffix [a] xs \<and> prefix [b] ys" by simp
        then have ?thesis by blast
      }
      ultimately show ?thesis using r by blast
    qed
  qed
  have i1: "suffix [a, b] xs \<Longrightarrow> sublist [a, b] xs" by (rule suffix_imp_sublist)
  have i2: "prefix [a, b] ys \<Longrightarrow> sublist [a, b] ys" by (rule prefix_imp_sublist)
  show ?thesis
    unfolding contains_def sublist_append e s1 s2 using i1 i2 by blast
qed

lemma contains_tail: "contains (c # p) s \<Longrightarrow> contains p s"
proof -
  assume "contains (c # p) s"
  then obtain ps ss where "s = ps @ (c # p) @ ss"
    by (auto simp: contains_def sublist_def)
  then have "s = (ps @ [c]) @ p @ ss" by simp
  then show ?thesis unfolding contains_def sublist_def by blast
qed

lemma take_append_take:
  "n \<le> length xs + m \<Longrightarrow> take n (xs @ ys) = take n (xs @ take m ys)"
  by (auto simp: min_def)

lemma replace_skip:
  assumes "p \<noteq> []" and "\<not> contains p (xs @ take (length p - 1) ys)"
  shows "replace p new (xs @ ys) = xs @ replace p new ys"
  using assms(2)
proof (induction xs)
  case Nil
  then show ?case by simp
next
  case (Cons c cs)
  have np: "\<not> prefix p (c # cs @ ys)"
  proof
    assume "prefix p (c # cs @ ys)"
    then obtain zs where z: "(c # cs) @ ys = p @ zs" by (auto simp: prefix_def)
    have "p = take (length p) (p @ zs)" by simp
    also have "\<dots> = take (length p) ((c # cs) @ ys)" using z by simp
    also have "\<dots> = take (length p) ((c # cs) @ take (length p - 1) ys)"
      by (rule take_append_take) simp
    finally have "p = take (length p) ((c # cs) @ take (length p - 1) ys)" .
    then have "prefix p ((c # cs) @ take (length p - 1) ys)"
      using take_is_prefix [of "length p" "(c # cs) @ take (length p - 1) ys"] by simp
    then show False using Cons.prems
      by (simp add: contains_def)
  qed
  have "\<not> contains p (cs @ take (length p - 1) ys)"
    using Cons.prems by (simp add: contains_def sublist_Cons_right)
  then have ih: "replace p new (cs @ ys) = cs @ replace p new ys" by (rule Cons.IH)
  show ?case
    using np ih assms(1) by (subst replace.simps) simp
qed

lemma replace_none:
  assumes "p \<noteq> []" and "\<not> contains p s"
  shows "replace p new s = s"
  using replace_skip [of p s "[]" new] assms by (simp add: replace.simps)

lemma contains_flag:
  assumes "\<not> contains [a, b] x" and "b \<noteq> CHR '' ''"
  shows "contains [a, b] (x @ CHR '' '' # r) \<longleftrightarrow> contains [a, b] (CHR '' '' # r)"
  using assms by (simp add: contains_two_append)

lemma contains_spaced:
  "\<not> contains [a, b] s \<Longrightarrow> \<not> contains [CHR '' '', a, b] s"
  using contains_tail [of "CHR '' ''" "[a, b]" s] by blast

lemma replace_flag3:
  assumes "\<not> contains [a, b] x" and "a \<noteq> CHR '' ''" and "b \<noteq> CHR '' ''"
  shows "replace [CHR '' '', a, b] new (x @ CHR '' '' # a # b # r)
           = x @ new @ replace [CHR '' '', a, b] new r"
proof -
  have "\<not> contains [a, b] [CHR '' '', a]"
    using assms by (simp add: contains_def sublist_code(3))
  then have "\<not> contains [a, b] (x @ [CHR '' '', a])"
    using assms by (simp add: contains_two_append)
  then have "\<not> contains [CHR '' '', a, b] (x @ take (length [CHR '' '', a, b] - 1) (CHR '' '' # a # b # r))"
    using contains_spaced by simp
  then have "replace [CHR '' '', a, b] new (x @ CHR '' '' # a # b # r)
               = x @ replace [CHR '' '', a, b] new (CHR '' '' # a # b # r)"
    by (intro replace_skip) simp_all
  then show ?thesis
    by (simp add: replace.simps [of _ _ "CHR '' '' # a # b # r"])
qed

lemma replace_flag2:
  assumes "\<not> contains [a, b] x" and "a \<noteq> CHR '' ''" and "b \<noteq> CHR '' ''"
  shows "replace [a, b] new (x @ CHR '' '' # a # b # r)
           = x @ CHR '' '' # new @ replace [a, b] new r"
proof -
  have "\<not> contains [a, b] [CHR '' '']"
    by (simp add: contains_def sublist_code(3))
  then have "\<not> contains [a, b] (x @ take (length [a, b] - 1) (CHR '' '' # a # b # r))"
    using assms by (simp add: contains_two_append)
  then have "replace [a, b] new (x @ CHR '' '' # a # b # r)
               = x @ replace [a, b] new (CHR '' '' # a # b # r)"
    by (intro replace_skip) simp_all
  then show ?thesis
    using assms(2)
    by (simp add: replace.simps [of _ _ "CHR '' '' # a # b # r"]
        replace.simps [of _ _ "a # b # r"])
qed

lemma strip_fixed:
  assumes "strip x = x" and "x \<noteq> []"
  shows "\<not> is_space (hd x) \<and> \<not> is_space (last x)"
proof -
  let ?y = "dropWhile is_space x"
  have "length (strip x) = length (dropWhile is_space (rev ?y))"
    by (simp add: strip_def)
  also have "\<dots> \<le> length (rev ?y)" by (rule length_dropWhile_le)
  finally have l: "length x \<le> length ?y" using assms(1) by simp
  have "length (takeWhile is_space x) + length ?y = length x"
    using takeWhile_dropWhile_id [of is_space x] length_append [of "takeWhile is_space x" ?y]
    by simp
  then have "length (takeWhile is_space x) = 0" using l by linarith
  then have "takeWhile is_space x = []" by (rule length_0_conv [THEN iffD1])
  then have y: "?y = x"
    using takeWhile_dropWhile_id [of is_space x] by simp
  then have h: "\<not> is_space (hd x)"
    using assms(2) by (metis hd_dropWhile)
  have "rev (dropWhile is_space (rev x)) = x"
    using assms(1) y by (simp add: strip_def)
  then have "dropWhile is_space (rev x) = rev x" by (metis rev_rev_ident)
  then have "\<not> is_space (hd (rev x))"
    using assms(2) by (metis hd_dropWhile rev_is_Nil_conv)
  then show ?thesis using h assms(2) by (simp add: hd_rev)
qed

lemma strip_append:
  assumes "strip x = x" and "x \<noteq> []"
  shows "strip (x @ ys) = x @ rev (dropWhile is_space (rev ys))"
proof -
  from strip_fixed [OF assms] have h: "\<not> is_space (hd x)" and l: "\<not> is_space (last x)"
    by simp_all
  obtain c cs where x: "x = c # cs" using assms(2) by (cases x) auto
  have d: "dropWhile is_space (x @ ys) = x @ ys" using h x by simp
  obtain b bs where r: "rev x = b # bs" using assms(2) by (cases "rev x") auto
  have "b = last x" using r by (metis hd_rev list.sel(1))
  then have "\<not> is_space b" using l by simp
  then have e: "dropWhile is_space (rev x) = rev x" unfolding r by simp
  have "dropWhile is_space (rev ys @ rev x) = dropWhile is_space (rev ys) @ rev x"
  proof (cases "\<forall>c \<in> set (rev ys). is_space c")
    case True
    then have "dropWhile is_space (rev ys @ rev x) = dropWhile is_space (rev x)"
      by (intro dropWhile_append2) simp
    moreover have "dropWhile is_space (rev ys) = []"
      using True by simp
    ultimately show ?thesis using e by simp
  next
    case False
    then show ?thesis by (metis dropWhile_append1)
  qed
  then show ?thesis
    by (simp add: strip_def d)
qed

lemma strip_append_to:
  assumes "strip x = x" and "x \<noteq> []" and "rev (dropWhile is_space (rev ys)) = zs"
  shows "strip (x @ ys) = x @ zs"
  using strip_append [OF assms(1,2), of ys] assms(3) by simp

lemma rstrip_facts:
  "rev (dropWhile is_space (rev '' '')) = []"
  "rev (dropWhile is_space (rev '' -h '')) = '' -h''"
  "rev (dropWhile is_space (rev ''  -h'')) = ''  -h''"
  "rev (dropWhile is_space (rev ''  '')) = []"
  "rev (dropWhile is_space (rev '' -e '')) = '' -e''"
  "rev (dropWhile is_space (rev ''  -e'')) = ''  -e''"
  by code_simp+

lemma flag_facts:
  "contains ''-e'' ''  -e'' = True"
  "contains ''-e'' '' '' = False"
  "contains ''-e'' '' -e'' = True"
  "contains ''-g'' '' -e -g'' = True"
  "contains ''-g'' '' -e'' = False"
  "contains ''-g'' '' -g -e'' = True"
  "contains ''-g'' '' -g -h'' = True"
  "contains ''-g'' '' -g'' = True"
  "contains ''-g'' '' -h -g'' = True"
  "contains ''-g'' '' -h'' = False"
  "contains ''-h'' ''  -e'' = False"
  "contains ''-h'' ''  -h'' = True"
  "contains ''-h'' '' '' = False"
  "contains ''-h'' '' -e'' = False"
  "contains ''-h'' '' -h'' = True"
  "replace '' -e'' [] [] = []"
  "replace '' -g'' [] '' -e'' = '' -e''"
  "replace '' -g'' [] '' -h'' = '' -h''"
  "replace '' -g'' [] [] = []"
  "replace '' -h'' [] [] = []"
  "replace ''-e'' [] [] = []"
  "replace ''-g'' [] '' -e'' = '' -e''"
  "replace ''-g'' [] '' -h'' = '' -h''"
  "replace ''-g'' [] [] = []"
  "replace ''-h'' [] [] = []"
  by code_simp+

lemma strip_options_Dicer_g:
  assumes ng: "\<not> contains ''-g'' x" and nh: "\<not> contains ''-h'' x" and ne: "\<not> contains ''-e'' x"
  shows "strip_options_Dicer (x @ '' -g'') = (True, ''n'', x)"
proof -
  have cg: "contains ''-g'' (x @ '' -g'') = True"
    using contains_flag [OF ng, of "''-g''"] by (simp add: flag_facts)
  have rg_a: "\<not> contains ''-g'' (x @ [])" using ng by simp
  have rg: "replace '' -g'' [] (x @ '' -g'') = x @ []"
    using replace_flag3 [OF rg_a, of "[]" "[]"] by (simp add: flag_facts)
  have ch: "\<not> contains ''-h'' (x @ [])" using nh by simp
  have ce: "\<not> contains ''-e'' (x @ [])" using ne by simp
  show ?thesis
    using cg rg ch ce by (simp add: strip_options_Dicer_def)
qed

lemma strip_options_dicer_g:
  assumes ng: "\<not> contains ''-g'' x" and nh: "\<not> contains ''-h'' x" and ne: "\<not> contains ''-e'' x"
    and sx: "strip x = x" and nx: "x \<noteq> []"
  shows "strip_options_dicer (x @ '' -g'') = (no_options(''-g'' \<mapsto> True), ''n'', x)"
proof -
  have cg: "contains ''-g'' (x @ '' -g'') = True"
    using contains_flag [OF ng, of "''-g''"] by (simp add: flag_facts)
  have rg_a: "\<not> contains ''-g'' (x @ [])" using ng by simp
  have rg_b: "replace ''-g'' [] (x @ '' -g'') = x @ '' ''"
    using replace_flag2 [OF rg_a, of "[]" "[]"] by (simp add: flag_facts)
  have rg: "strip (replace ''-g'' [] (x @ '' -g'')) = x @ []"
    unfolding rg_b by (rule strip_append_to [OF sx nx rstrip_facts(1)])
  have ch: "\<not> contains ''-h'' (x @ [])" using nh by simp
  have ce: "\<not> contains ''-e'' (x @ [])" using ne by simp
  show ?thesis
    using cg rg ch ce by (simp add: strip_options_dicer_def scan_options_def no_options_def)
qed

lemma strip_options_Dicer_h:
  assumes ng: "\<not> contains ''-g'' x" and nh: "\<not> contains ''-h'' x" and ne: "\<not> contains ''-e'' x"
  shows "strip_options_Dicer (x @ '' -h'') = (False, ''h'', x)"
proof -
  have cg: "contains ''-g'' (x @ '' -h'') = False"
    using contains_flag [OF ng, of "''-h''"] by (simp add: flag_facts)
  have ch: "contains ''-h'' (x @ '' -h'') = True"
    using contains_flag [OF nh, of "''-h''"] by (simp add: flag_facts)
  have rh_a: "\<not> contains ''-h'' (x @ [])" using nh by simp
  have rh: "replace '' -h'' [] (x @ '' -h'') = x @ []"
    using replace_flag3 [OF rh_a, of "[]" "[]"] by (simp add: flag_facts)
  show ?thesis
    using cg ch rh by (simp add: strip_options_Dicer_def)
qed

lemma strip_options_dicer_h:
  assumes ng: "\<not> contains ''-g'' x" and nh: "\<not> contains ''-h'' x" and ne: "\<not> contains ''-e'' x"
    and sx: "strip x = x" and nx: "x \<noteq> []"
  shows "strip_options_dicer (x @ '' -h'') = (no_options(''-h'' \<mapsto> True), ''h'', x)"
proof -
  have cg: "contains ''-g'' (x @ '' -h'') = False"
    using contains_flag [OF ng, of "''-h''"] by (simp add: flag_facts)
  have ch: "contains ''-h'' (x @ '' -h'') = True"
    using contains_flag [OF nh, of "''-h''"] by (simp add: flag_facts)
  have rh_a: "\<not> contains ''-h'' (x @ [])" using nh by simp
  have rh_b: "replace ''-h'' [] (x @ '' -h'') = x @ '' ''"
    using replace_flag2 [OF rh_a, of "[]" "[]"] by (simp add: flag_facts)
  have rh: "strip (replace ''-h'' [] (x @ '' -h'')) = x @ []"
    unfolding rh_b by (rule strip_append_to [OF sx nx rstrip_facts(1)])
  have ce: "\<not> contains ''-e'' (x @ [])" using ne by simp
  show ?thesis
    using cg ch rh ce by (simp add: strip_options_dicer_def scan_options_def no_options_def)
qed

lemma strip_options_Dicer_e:
  assumes ng: "\<not> contains ''-g'' x" and nh: "\<not> contains ''-h'' x" and ne: "\<not> contains ''-e'' x"
  shows "strip_options_Dicer (x @ '' -e'') = (False, ''e'', x)"
proof -
  have cg: "contains ''-g'' (x @ '' -e'') = False"
    using contains_flag [OF ng, of "''-e''"] by (simp add: flag_facts)
  have ch: "contains ''-h'' (x @ '' -e'') = False"
    using contains_flag [OF nh, of "''-e''"] by (simp add: flag_facts)
  have ce: "contains ''-e'' (x @ '' -e'') = True"
    using contains_flag [OF ne, of "''-e''"] by (simp add: flag_facts)
  have re_a: "\<not> contains ''-e'' (x @ [])" using ne by simp
  have re: "replace '' -e'' [] (x @ '' -e'') = x @ []"
    using replace_flag3 [OF re_a, of "[]" "[]"] by (simp add: flag_facts)
  show ?thesis
    using cg ch ce re by (simp add: strip_options_Dicer_def)
qed

lemma strip_options_dicer_e:
  assumes ng: "\<not> contains ''-g'' x" and nh: "\<not> contains ''-h'' x" and ne: "\<not> contains ''-e'' x"
    and sx: "strip x = x" and nx: "x \<noteq> []"
  shows "strip_options_dicer (x @ '' -e'') = (no_options(''-e'' \<mapsto> True), ''e'', x)"
proof -
  have cg: "contains ''-g'' (x @ '' -e'') = False"
    using contains_flag [OF ng, of "''-e''"] by (simp add: flag_facts)
  have ch: "contains ''-h'' (x @ '' -e'') = False"
    using contains_flag [OF nh, of "''-e''"] by (simp add: flag_facts)
  have ce: "contains ''-e'' (x @ '' -e'') = True"
    using contains_flag [OF ne, of "''-e''"] by (simp add: flag_facts)
  have re_a: "\<not> contains ''-e'' (x @ [])" using ne by simp
  have re_b: "replace ''-e'' [] (x @ '' -e'') = x @ '' ''"
    using replace_flag2 [OF re_a, of "[]" "[]"] by (simp add: flag_facts)
  have re: "strip (replace ''-e'' [] (x @ '' -e'')) = x @ []"
    unfolding re_b by (rule strip_append_to [OF sx nx rstrip_facts(1)])
  show ?thesis
    using cg ch ce re by (simp add: strip_options_dicer_def scan_options_def no_options_def)
qed

lemma strip_options_Dicer_hg:
  assumes ng: "\<not> contains ''-g'' x" and nh: "\<not> contains ''-h'' x" and ne: "\<not> contains ''-e'' x"
  shows "strip_options_Dicer (x @ '' -h -g'') = (True, ''h'', x)"
proof -
  have cg: "contains ''-g'' (x @ '' -h -g'') = True"
    using contains_flag [OF ng, of "''-h -g''"] by (simp add: flag_facts)
  have rg_a: "\<not> contains ''-g'' (x @ '' -h'')"
    using contains_flag [OF ng, of "''-h''"] by (simp add: flag_facts)
  have rg: "replace '' -g'' [] (x @ '' -h -g'') = x @ '' -h''"
    using replace_flag3 [OF rg_a, of "[]" "[]"] by (simp add: flag_facts)
  have ch: "contains ''-h'' (x @ '' -h'') = True"
    using contains_flag [OF nh, of "''-h''"] by (simp add: flag_facts)
  have rh_a: "\<not> contains ''-h'' (x @ [])" using nh by simp
  have rh: "replace '' -h'' [] (x @ '' -h'') = x @ []"
    using replace_flag3 [OF rh_a, of "[]" "[]"] by (simp add: flag_facts)
  show ?thesis
    using cg rg ch rh by (simp add: strip_options_Dicer_def)
qed

lemma strip_options_dicer_hg:
  assumes ng: "\<not> contains ''-g'' x" and nh: "\<not> contains ''-h'' x" and ne: "\<not> contains ''-e'' x"
    and sx: "strip x = x" and nx: "x \<noteq> []"
  shows "strip_options_dicer (x @ '' -h -g'') = (no_options(''-g'' \<mapsto> True, ''-h'' \<mapsto> True), ''h'', x)"
proof -
  have cg: "contains ''-g'' (x @ '' -h -g'') = True"
    using contains_flag [OF ng, of "''-h -g''"] by (simp add: flag_facts)
  have rg_a: "\<not> contains ''-g'' (x @ '' -h'')"
    using contains_flag [OF ng, of "''-h''"] by (simp add: flag_facts)
  have rg_b: "replace ''-g'' [] (x @ '' -h -g'') = x @ '' -h ''"
    using replace_flag2 [OF rg_a, of "[]" "[]"] by (simp add: flag_facts)
  have rg: "strip (replace ''-g'' [] (x @ '' -h -g'')) = x @ '' -h''"
    unfolding rg_b by (rule strip_append_to [OF sx nx rstrip_facts(2)])
  have ch: "contains ''-h'' (x @ '' -h'') = True"
    using contains_flag [OF nh, of "''-h''"] by (simp add: flag_facts)
  have rh_a: "\<not> contains ''-h'' (x @ [])" using nh by simp
  have rh_b: "replace ''-h'' [] (x @ '' -h'') = x @ '' ''"
    using replace_flag2 [OF rh_a, of "[]" "[]"] by (simp add: flag_facts)
  have rh: "strip (replace ''-h'' [] (x @ '' -h'')) = x @ []"
    unfolding rh_b by (rule strip_append_to [OF sx nx rstrip_facts(1)])
  have ce: "\<not> contains ''-e'' (x @ [])" using ne by simp
  show ?thesis
    using cg rg ch rh ce by (simp add: strip_options_dicer_def scan_options_def no_options_def)
qed

lemma strip_options_Dicer_gh:
  assumes ng: "\<not> contains ''-g'' x" and nh: "\<not> contains ''-h'' x" and ne: "\<not> contains ''-e'' x"
  shows "strip_options_Dicer (x @ '' -g -h'') = (True, ''h'', x)"
proof -
  have cg: "contains ''-g'' (x @ '' -g -h'') = True"
    using contains_flag [OF ng, of "''-g -h''"] by (simp add: flag_facts)
  have rg_a: "\<not> contains ''-g'' (x @ [])" using ng by simp
  have rg: "replace '' -g'' [] (x @ '' -g -h'') = x @ '' -h''"
    using replace_flag3 [OF rg_a, of "[]" "'' -h''"] by (simp add: flag_facts)
  have ch: "contains ''-h'' (x @ '' -h'') = True"
    using contains_flag [OF nh, of "''-h''"] by (simp add: flag_facts)
  have rh_a: "\<not> contains ''-h'' (x @ [])" using nh by simp
  have rh: "replace '' -h'' [] (x @ '' -h'') = x @ []"
    using replace_flag3 [OF rh_a, of "[]" "[]"] by (simp add: flag_facts)
  show ?thesis
    using cg rg ch rh by (simp add: strip_options_Dicer_def)
qed

lemma strip_options_dicer_gh:
  assumes ng: "\<not> contains ''-g'' x" and nh: "\<not> contains ''-h'' x" and ne: "\<not> contains ''-e'' x"
    and sx: "strip x = x" and nx: "x \<noteq> []"
  shows "strip_options_dicer (x @ '' -g -h'') = (no_options(''-g'' \<mapsto> True, ''-h'' \<mapsto> True), ''h'', x)"
proof -
  have cg: "contains ''-g'' (x @ '' -g -h'') = True"
    using contains_flag [OF ng, of "''-g -h''"] by (simp add: flag_facts)
  have rg_a: "\<not> contains ''-g'' (x @ [])" using ng by simp
  have rg_b: "replace ''-g'' [] (x @ '' -g -h'') = x @ ''  -h''"
    using replace_flag2 [OF rg_a, of "[]" "'' -h''"] by (simp add: flag_facts)
  have rg: "strip (replace ''-g'' [] (x @ '' -g -h'')) = x @ ''  -h''"
    unfolding rg_b by (rule strip_append_to [OF sx nx rstrip_facts(3)])
  have ch: "contains ''-h'' (x @ ''  -h'') = True"
    using contains_flag [OF nh, of "'' -h''"] by (simp add: flag_facts)
  have rh_a: "\<not> contains ''-h'' (x @ '' '')"
    using contains_flag [OF nh, of "[]"] by (simp add: flag_facts)
  have rh_b: "replace ''-h'' [] (x @ ''  -h'') = x @ ''  ''"
    using replace_flag2 [OF rh_a, of "[]" "[]"] by (simp add: flag_facts)
  have rh: "strip (replace ''-h'' [] (x @ ''  -h'')) = x @ []"
    unfolding rh_b by (rule strip_append_to [OF sx nx rstrip_facts(4)])
  have ce: "\<not> contains ''-e'' (x @ [])" using ne by simp
  show ?thesis
    using cg rg ch rh ce by (simp add: strip_options_dicer_def scan_options_def no_options_def)
qed

lemma strip_options_Dicer_eg:
  assumes ng: "\<not> contains ''-g'' x" and nh: "\<not> contains ''-h'' x" and ne: "\<not> contains ''-e'' x"
  shows "strip_options_Dicer (x @ '' -e -g'') = (True, ''e'', x)"
proof -
  have cg: "contains ''-g'' (x @ '' -e -g'') = True"
    using contains_flag [OF ng, of "''-e -g''"] by (simp add: flag_facts)
  have rg_a: "\<not> contains ''-g'' (x @ '' -e'')"
    using contains_flag [OF ng, of "''-e''"] by (simp add: flag_facts)
  have rg: "replace '' -g'' [] (x @ '' -e -g'') = x @ '' -e''"
    using replace_flag3 [OF rg_a, of "[]" "[]"] by (simp add: flag_facts)
  have ch: "contains ''-h'' (x @ '' -e'') = False"
    using contains_flag [OF nh, of "''-e''"] by (simp add: flag_facts)
  have ce: "contains ''-e'' (x @ '' -e'') = True"
    using contains_flag [OF ne, of "''-e''"] by (simp add: flag_facts)
  have re_a: "\<not> contains ''-e'' (x @ [])" using ne by simp
  have re: "replace '' -e'' [] (x @ '' -e'') = x @ []"
    using replace_flag3 [OF re_a, of "[]" "[]"] by (simp add: flag_facts)
  show ?thesis
    using cg rg ch ce re by (simp add: strip_options_Dicer_def)
qed

lemma strip_options_dicer_eg:
  assumes ng: "\<not> contains ''-g'' x" and nh: "\<not> contains ''-h'' x" and ne: "\<not> contains ''-e'' x"
    and sx: "strip x = x" and nx: "x \<noteq> []"
  shows "strip_options_dicer (x @ '' -e -g'') = (no_options(''-g'' \<mapsto> True, ''-e'' \<mapsto> True), ''e'', x)"
proof -
  have cg: "contains ''-g'' (x @ '' -e -g'') = True"
    using contains_flag [OF ng, of "''-e -g''"] by (simp add: flag_facts)
  have rg_a: "\<not> contains ''-g'' (x @ '' -e'')"
    using contains_flag [OF ng, of "''-e''"] by (simp add: flag_facts)
  have rg_b: "replace ''-g'' [] (x @ '' -e -g'') = x @ '' -e ''"
    using replace_flag2 [OF rg_a, of "[]" "[]"] by (simp add: flag_facts)
  have rg: "strip (replace ''-g'' [] (x @ '' -e -g'')) = x @ '' -e''"
    unfolding rg_b by (rule strip_append_to [OF sx nx rstrip_facts(5)])
  have ch: "contains ''-h'' (x @ '' -e'') = False"
    using contains_flag [OF nh, of "''-e''"] by (simp add: flag_facts)
  have ce: "contains ''-e'' (x @ '' -e'') = True"
    using contains_flag [OF ne, of "''-e''"] by (simp add: flag_facts)
  have re_a: "\<not> contains ''-e'' (x @ [])" using ne by simp
  have re_b: "replace ''-e'' [] (x @ '' -e'') = x @ '' ''"
    using replace_flag2 [OF re_a, of "[]" "[]"] by (simp add: flag_facts)
  have re: "strip (replace ''-e'' [] (x @ '' -e'')) = x @ []"
    unfolding re_b by (rule strip_append_to [OF sx nx rstrip_facts(1)])
  show ?thesis
    using cg rg ch ce re by (simp add: strip_options_dicer_def scan_options_def no_options_def)
qed

lemma strip_options_Dicer_ge:
  assumes ng: "\<not> contains ''-g'' x" and nh: "\<not> contains ''-h'' x" and ne: "\<not> contains ''-e'' x"
  shows "strip_options_Dicer (x @ '' -g -e'') = (True, ''e'', x)"
proof -
  have cg: "contains ''-g'' (x @ '' -g -e'') = True"
    using contains_flag [OF ng, of "''-g -e''"] by (simp add: flag_facts)
  have rg_a: "\<not> contains ''-g'' (x @ [])" using ng by simp
  have rg: "replace '' -g'' [] (x @ '' -g -e'') = x @ '' -e''"
    using replace_flag3 [OF rg_a, of "[]" "'' -e''"] by (simp add: flag_facts)
  have ch: "contains ''-h'' (x @ '' -e'') = False"
    using contains_flag [OF nh, of "''-e''"] by (simp add: flag_facts)
  have ce: "contains ''-e'' (x @ '' -e'') = True"
    using contains_flag [OF ne, of "''-e''"] by (simp add: flag_facts)
  have re_a: "\<not> contains ''-e'' (x @ [])" using ne by simp
  have re: "replace '' -e'' [] (x @ '' -e'') = x @ []"
    using replace_flag3 [OF re_a, of "[]" "[]"] by (simp add: flag_facts)
  show ?thesis
    using cg rg ch ce re by (simp add: strip_options_Dicer_def)
qed

lemma strip_options_dicer_ge:
  assumes ng: "\<not> contains ''-g'' x" and nh: "\<not> contains ''-h'' x" and ne: "\<not> contains ''-e'' x"
    and sx: "strip x = x" and nx: "x \<noteq> []"
  shows "strip_options_dicer (x @ '' -g -e'') = (no_options(''-g'' \<mapsto> True, ''-e'' \<mapsto> True), ''e'', x)"
proof -
  have cg: "contains ''-g'' (x @ '' -g -e'') = True"
    using contains_flag [OF ng, of "''-g -e''"] by (simp add: flag_facts)
  have rg_a: "\<not> contains ''-g'' (x @ [])" using ng by simp
  have rg_b: "replace ''-g'' [] (x @ '' -g -e'') = x @ ''  -e''"
    using replace_flag2 [OF rg_a, of "[]" "'' -e''"] by (simp add: flag_facts)
  have rg: "strip (replace ''-g'' [] (x @ '' -g -e'')) = x @ ''  -e''"
    unfolding rg_b by (rule strip_append_to [OF sx nx rstrip_facts(6)])
  have ch: "contains ''-h'' (x @ ''  -e'') = False"
    using contains_flag [OF nh, of "'' -e''"] by (simp add: flag_facts)
  have ce: "contains ''-e'' (x @ ''  -e'') = True"
    using contains_flag [OF ne, of "'' -e''"] by (simp add: flag_facts)
  have re_a: "\<not> contains ''-e'' (x @ '' '')"
    using contains_flag [OF ne, of "[]"] by (simp add: flag_facts)
  have re_b: "replace ''-e'' [] (x @ ''  -e'') = x @ ''  ''"
    using replace_flag2 [OF re_a, of "[]" "[]"] by (simp add: flag_facts)
  have re: "strip (replace ''-e'' [] (x @ ''  -e'')) = x @ []"
    unfolding re_b by (rule strip_append_to [OF sx nx rstrip_facts(4)])
  show ?thesis
    using cg rg ch ce re by (simp add: strip_options_dicer_def scan_options_def no_options_def)
qed

lemma report_agree:
  assumes "lvl = ''h'' \<or> lvl = ''e'' \<or> lvl = ''n''"
  shows "report_dicer options lvl target d t details
           = report_Dicer (options ''-g'' = Some True) lvl target d t details"
  using assms
  by (auto simp: report_dicer_def report_Dicer_def lvl_map_simps Let_def
      split: option.splits prod.splits)

lemma evaluate_agree:
  assumes "strip_options_Dicer expression = (gamble, lvl, e)"
    and "strip_options_dicer expression = (options, lvl, e)"
    and "(options ''-g'' = Some True) = gamble"
  shows "evaluate_expression_Dicer msg expression g = evaluate_expression_dicer msg expression g"
proof -
  have l: "lvl = ''h'' \<or> lvl = ''e'' \<or> lvl = ''n''"
    by (rule lvl_of_dicer [OF assms(2)])
  show ?thesis
    using assms(3)
    by (simp add: evaluate_expression_Dicer_def evaluate_expression_dicer_def
        evaluate_body_Dicer_def evaluate_body_dicer_def assms(1,2) report_agree [OF l]
        split: sum.splits prod.splits)
qed

lemma evaluate_agree_plain:
  assumes "\<not> contains ''-g'' expression" and "\<not> contains ''-h'' expression"
    and "\<not> contains ''-e'' expression"
  shows "evaluate_expression_Dicer msg expression g = evaluate_expression_dicer msg expression g"
  by (rule evaluate_agree [OF strip_options_Dicer_plain [OF assms]
        strip_options_dicer_plain [OF assms]]) (simp add: no_options_def)

lemma evaluate_agree_flags:
  assumes "\<not> contains ''-g'' x" and "\<not> contains ''-h'' x" and "\<not> contains ''-e'' x"
    and "strip x = x" and "x \<noteq> []"
    and "flags \<in> set ['' -g'', '' -h'', '' -e'', '' -h -g'', '' -g -h'', '' -e -g'', '' -g -e'']"
  shows "evaluate_expression_Dicer msg (x @ flags) g = evaluate_expression_dicer msg (x @ flags) g"
proof -
  note a = assms(1-3) and b = assms(1-5)
  have 1: "evaluate_expression_Dicer msg (x @ '' -g'') g
            = evaluate_expression_dicer msg (x @ '' -g'') g"
    by (rule evaluate_agree [OF strip_options_Dicer_g [OF a] strip_options_dicer_g [OF b]])
       (simp add: no_options_def)
  have 2: "evaluate_expression_Dicer msg (x @ '' -h'') g
            = evaluate_expression_dicer msg (x @ '' -h'') g"
    by (rule evaluate_agree [OF strip_options_Dicer_h [OF a] strip_options_dicer_h [OF b]])
       (simp add: no_options_def)
  have 3: "evaluate_expression_Dicer msg (x @ '' -e'') g
            = evaluate_expression_dicer msg (x @ '' -e'') g"
    by (rule evaluate_agree [OF strip_options_Dicer_e [OF a] strip_options_dicer_e [OF b]])
       (simp add: no_options_def)
  have 4: "evaluate_expression_Dicer msg (x @ '' -h -g'') g
            = evaluate_expression_dicer msg (x @ '' -h -g'') g"
    by (rule evaluate_agree [OF strip_options_Dicer_hg [OF a] strip_options_dicer_hg [OF b]])
       (simp add: no_options_def)
  have 5: "evaluate_expression_Dicer msg (x @ '' -g -h'') g
            = evaluate_expression_dicer msg (x @ '' -g -h'') g"
    by (rule evaluate_agree [OF strip_options_Dicer_gh [OF a] strip_options_dicer_gh [OF b]])
       (simp add: no_options_def)
  have 6: "evaluate_expression_Dicer msg (x @ '' -e -g'') g
            = evaluate_expression_dicer msg (x @ '' -e -g'') g"
    by (rule evaluate_agree [OF strip_options_Dicer_eg [OF a] strip_options_dicer_eg [OF b]])
       (simp add: no_options_def)
  have 7: "evaluate_expression_Dicer msg (x @ '' -g -e'') g
            = evaluate_expression_dicer msg (x @ '' -g -e'') g"
    by (rule evaluate_agree [OF strip_options_Dicer_ge [OF a] strip_options_dicer_ge [OF b]])
       (simp add: no_options_def)
  from assms(6) have "flags = '' -g'' \<or> flags = '' -h'' \<or> flags = '' -e''
      \<or> flags = '' -h -g'' \<or> flags = '' -g -h'' \<or> flags = '' -e -g'' \<or> flags = '' -g -e''"
    by simp
  then show ?thesis
    using 1 2 3 4 5 6 7 by blast
qed

lemma only_flags_g:
  "strip_options_Dicer '' -g'' = (True, ''n'', [])"
  "strip_options_dicer '' -g'' = (no_options(''-g'' \<mapsto> True), ''n'', [])"
proof -
  show "strip_options_Dicer '' -g'' = (True, ''n'', [])" by code_simp
  have f: "contains ''-g'' '' -g'' = True"
    "strip (replace ''-g'' [] '' -g'') = []"
    "contains ''-h'' [] = False"
    "contains ''-e'' [] = False"
    by code_simp+
  show "strip_options_dicer '' -g'' = (no_options(''-g'' \<mapsto> True), ''n'', [])"
    by (simp add: strip_options_dicer_def scan_options_def no_options_def f)
qed

lemma only_flags_h:
  "strip_options_Dicer '' -h'' = (False, ''h'', [])"
  "strip_options_dicer '' -h'' = (no_options(''-h'' \<mapsto> True), ''h'', [])"
proof -
  show "strip_options_Dicer '' -h'' = (False, ''h'', [])" by code_simp
  have f: "contains ''-g'' '' -h'' = False"
    "contains ''-h'' '' -h'' = True"
    "strip (replace ''-h'' [] '' -h'') = []"
    "contains ''-e'' [] = False"
    by code_simp+
  show "strip_options_dicer '' -h'' = (no_options(''-h'' \<mapsto> True), ''h'', [])"
    by (simp add: strip_options_dicer_def scan_options_def no_options_def f)
qed

lemma only_flags_e:
  "strip_options_Dicer '' -e'' = (False, ''e'', [])"
  "strip_options_dicer '' -e'' = (no_options(''-e'' \<mapsto> True), ''e'', [])"
proof -
  show "strip_options_Dicer '' -e'' = (False, ''e'', [])" by code_simp
  have f: "contains ''-g'' '' -e'' = False"
    "contains ''-h'' '' -e'' = False"
    "contains ''-e'' '' -e'' = True"
    "strip (replace ''-e'' [] '' -e'') = []"
    by code_simp+
  show "strip_options_dicer '' -e'' = (no_options(''-e'' \<mapsto> True), ''e'', [])"
    by (simp add: strip_options_dicer_def scan_options_def no_options_def f)
qed

lemma only_flags_hg:
  "strip_options_Dicer '' -h -g'' = (True, ''h'', [])"
  "strip_options_dicer '' -h -g'' = (no_options(''-g'' \<mapsto> True, ''-h'' \<mapsto> True), ''h'', [])"
proof -
  show "strip_options_Dicer '' -h -g'' = (True, ''h'', [])" by code_simp
  have f: "contains ''-g'' '' -h -g'' = True"
    "strip (replace ''-g'' [] '' -h -g'') = ''-h''"
    "contains ''-h'' ''-h'' = True"
    "strip (replace ''-h'' [] ''-h'') = []"
    "contains ''-e'' [] = False"
    by code_simp+
  show "strip_options_dicer '' -h -g'' = (no_options(''-g'' \<mapsto> True, ''-h'' \<mapsto> True), ''h'', [])"
    by (simp add: strip_options_dicer_def scan_options_def no_options_def f)
qed

lemma only_flags_gh:
  "strip_options_Dicer '' -g -h'' = (True, ''h'', [])"
  "strip_options_dicer '' -g -h'' = (no_options(''-g'' \<mapsto> True, ''-h'' \<mapsto> True), ''h'', [])"
proof -
  show "strip_options_Dicer '' -g -h'' = (True, ''h'', [])" by code_simp
  have f: "contains ''-g'' '' -g -h'' = True"
    "strip (replace ''-g'' [] '' -g -h'') = ''-h''"
    "contains ''-h'' ''-h'' = True"
    "strip (replace ''-h'' [] ''-h'') = []"
    "contains ''-e'' [] = False"
    by code_simp+
  show "strip_options_dicer '' -g -h'' = (no_options(''-g'' \<mapsto> True, ''-h'' \<mapsto> True), ''h'', [])"
    by (simp add: strip_options_dicer_def scan_options_def no_options_def f)
qed

lemma only_flags_eg:
  "strip_options_Dicer '' -e -g'' = (True, ''e'', [])"
  "strip_options_dicer '' -e -g'' = (no_options(''-g'' \<mapsto> True, ''-e'' \<mapsto> True), ''e'', [])"
proof -
  show "strip_options_Dicer '' -e -g'' = (True, ''e'', [])" by code_simp
  have f: "contains ''-g'' '' -e -g'' = True"
    "strip (replace ''-g'' [] '' -e -g'') = ''-e''"
    "contains ''-h'' ''-e'' = False"
    "contains ''-e'' ''-e'' = True"
    "strip (replace ''-e'' [] ''-e'') = []"
    by code_simp+
  show "strip_options_dicer '' -e -g'' = (no_options(''-g'' \<mapsto> True, ''-e'' \<mapsto> True), ''e'', [])"
    by (simp add: strip_options_dicer_def scan_options_def no_options_def f)
qed

lemma only_flags_ge:
  "strip_options_Dicer '' -g -e'' = (True, ''e'', [])"
  "strip_options_dicer '' -g -e'' = (no_options(''-g'' \<mapsto> True, ''-e'' \<mapsto> True), ''e'', [])"
proof -
  show "strip_options_Dicer '' -g -e'' = (True, ''e'', [])" by code_simp
  have f: "contains ''-g'' '' -g -e'' = True"
    "strip (replace ''-g'' [] '' -g -e'') = ''-e''"
    "contains ''-h'' ''-e'' = False"
    "contains ''-e'' ''-e'' = True"
    "strip (replace ''-e'' [] ''-e'') = []"
    by code_simp+
  show "strip_options_dicer '' -g -e'' = (no_options(''-g'' \<mapsto> True, ''-e'' \<mapsto> True), ''e'', [])"
    by (simp add: strip_options_dicer_def scan_options_def no_options_def f)
qed
lemma evaluate_agree_only_flags:
  assumes "flags \<in> set ['' -g'', '' -h'', '' -e'', '' -h -g'', '' -g -h'', '' -e -g'', '' -g -e'']"
  shows "evaluate_expression_Dicer msg flags g = evaluate_expression_dicer msg flags g"
proof -
  have 1: "evaluate_expression_Dicer msg '' -g'' g = evaluate_expression_dicer msg '' -g'' g"
    by (rule evaluate_agree [OF only_flags_g]) (simp add: no_options_def)
  have 2: "evaluate_expression_Dicer msg '' -h'' g = evaluate_expression_dicer msg '' -h'' g"
    by (rule evaluate_agree [OF only_flags_h]) (simp add: no_options_def)
  have 3: "evaluate_expression_Dicer msg '' -e'' g = evaluate_expression_dicer msg '' -e'' g"
    by (rule evaluate_agree [OF only_flags_e]) (simp add: no_options_def)
  have 4: "evaluate_expression_Dicer msg '' -h -g'' g
             = evaluate_expression_dicer msg '' -h -g'' g"
    by (rule evaluate_agree [OF only_flags_hg]) (simp add: no_options_def)
  have 5: "evaluate_expression_Dicer msg '' -g -h'' g
             = evaluate_expression_dicer msg '' -g -h'' g"
    by (rule evaluate_agree [OF only_flags_gh]) (simp add: no_options_def)
  have 6: "evaluate_expression_Dicer msg '' -e -g'' g
             = evaluate_expression_dicer msg '' -e -g'' g"
    by (rule evaluate_agree [OF only_flags_eg]) (simp add: no_options_def)
  have 7: "evaluate_expression_Dicer msg '' -g -e'' g
             = evaluate_expression_dicer msg '' -g -e'' g"
    by (rule evaluate_agree [OF only_flags_ge]) (simp add: no_options_def)
  from assms have "flags = '' -g'' \<or> flags = '' -h'' \<or> flags = '' -e''
      \<or> flags = '' -h -g'' \<or> flags = '' -g -h'' \<or> flags = '' -e -g'' \<or> flags = '' -g -e''"
    by simp
  then show ?thesis
    using 1 2 3 4 5 6 7 by blast
qed

lemma example_agree:
  "\<not> contains ''-g'' ''40/1d100+2''" "\<not> contains ''-h'' ''40/1d100+2''"
  "\<not> contains ''-e'' ''40/1d100+2''" "strip ''40/1d100+2'' = ''40/1d100+2''"
  "''40/1d100+2'' \<noteq> []"
  "'' -h -g'' \<in> set ['' -g'', '' -h'', '' -e'', '' -h -g'', '' -g -h'', '' -e -g'', '' -g -e'']"
  "fst (evaluate_expression_Dicer example_msg ''40/1d100+2'' (\<lambda>i. 74))
     = ''1d100+2: 75+2=77, 77>40, '' @ check_failed"
  "fst (evaluate_expression_Dicer example_msg ''40/1d100+2 -h -g'' (\<lambda>i. 74))
     = ''1d100+2: 75+2=77, 77>20, '' @ hard_str @ gamble_failed"
  by code_simp+

text \<open>
  Claim C9, as stated, at the expression \<^verbatim>\<open>1d6-g\<close> with the die showing 3: \<^verbatim>\<open>src/Dicer.py\<close>
  removes only the text \<^verbatim>\<open> -g\<close> with its leading space and keeps \<^verbatim>\<open>1d6-g\<close> as the dice
  text; \<^verbatim>\<open>src/dicer.py\<close> removes \<^verbatim>\<open>-g\<close>. The two results differ.
\<close>

theorem files_differ_counterexample:
  "fst (evaluate_expression_Dicer example_msg ''1d6-g'' (fixed_draws 2)) = ''1d6-g: 3=3, 3''
   \<and> fst (evaluate_expression_dicer example_msg ''1d6-g'' (fixed_draws 2)) = ''1d6: 3=3, 3''
   \<and> fst (evaluate_expression_Dicer example_msg ''1d6-g'' (fixed_draws 2))
       \<noteq> fst (evaluate_expression_dicer example_msg ''1d6-g'' (fixed_draws 2))"
  by code_simp

text \<open>
  Claim C9, amended. For every sequence of random draws the two files return the same
  result, and leave the same random source, on every expression that contains none of the
  texts \<^verbatim>\<open>-g\<close>, \<^verbatim>\<open>-h\<close>, \<^verbatim>\<open>-e\<close>, and on every expression made of such a text, without white
  space at its ends, followed by one of the endings \<^verbatim>\<open> -g\<close>, \<^verbatim>\<open> -h\<close>, \<^verbatim>\<open> -e\<close>,
  \<^verbatim>\<open> -h -g\<close>, \<^verbatim>\<open> -g -h\<close>, \<^verbatim>\<open> -e -g\<close>, \<^verbatim>\<open> -g -e\<close>.
\<close>

theorem files_agree:
  "(\<not> contains ''-g'' expression \<and> \<not> contains ''-h'' expression
      \<and> \<not> contains ''-e'' expression \<longrightarrow>
      evaluate_expression_Dicer msg expression g = evaluate_expression_dicer msg expression g)
   \<and> (\<not> contains ''-g'' x \<and> \<not> contains ''-h'' x \<and> \<not> contains ''-e'' x
        \<and> strip x = x
        \<and> flags \<in> set ['' -g'', '' -h'', '' -e'', '' -h -g'', '' -g -h'', '' -e -g'', '' -g -e'']
      \<longrightarrow>
      evaluate_expression_Dicer msg (x @ flags) g = evaluate_expression_dicer msg (x @ flags) g)"
proof (cases "x = []")
  case True
  then show ?thesis
    using evaluate_agree_plain [of expression msg g] evaluate_agree_only_flags [of flags msg g]
    by auto
next
  case False
  then show ?thesis
    using evaluate_agree_plain [of expression msg g] evaluate_agree_flags [of x flags msg g]
    by blast
qed

theorem files_agree_witness:
  "fst (evaluate_expression_dicer example_msg ''40/1d100+2'' (\<lambda>i. 74))
     = ''1d100+2: 75+2=77, 77>40, '' @ check_failed
   \<and> fst (evaluate_expression_dicer example_msg ''40/1d100+2 -h -g'' (\<lambda>i. 74))
     = ''1d100+2: 75+2=77, 77>20, '' @ hard_str @ gamble_failed"
  using files_agree [of "''40/1d100+2''" example_msg "\<lambda>i. 74" "''40/1d100+2''" "'' -h -g''"]
    example_agree
  by simp

end
